theory Spec2Isabelle
  imports Complex_Main "HOL-Library.Word"
begin

unbundle bit_operations_syntax

section \<open>Machine types\<close>

text \<open>
  The drivers run on a 32-bit target: \<open>int\<close> and \<open>unsigned\<close> are 32 bits wide.
  A value of type \<open>int32_t\<close> is a 32-bit word read with \<^const>\<open>sint\<close>.
\<close>

type_synonym uint8_t = "8 word"
type_synonym uint16_t = "16 word"
type_synonym uint32_t = "32 word"
type_synonym int32_t = "32 word"

text \<open>
  The C++ type \<open>float\<close> is a type parameter \<open>'f\<close> of the model: any type with \<open>+\<close>,
  \<open>*\<close> and \<open>/\<close>, of which no law is assumed (no associativity, no exactness), so
  what is proved of the model holds whatever the target's single-precision arithmetic
  rounds to. What else the code does with a \<open>float\<close> is in \<open>float_ops\<close>: the conversion
  of an \<open>int32_t\<close> to \<open>float\<close> and the value of a literal such as \<open>0.5f\<close>. \<open>exact_float\<close>
  is the arithmetic with no rounding, on the reals.
\<close>

record 'f float_ops =
  f_of_int32 :: "int32_t \<Rightarrow> 'f"
  f_lit :: "rat \<Rightarrow> 'f"

definition exact_float :: "real float_ops" where
  "exact_float = \<lparr>f_of_int32 = (\<lambda>x. real_of_int (sint x)), f_lit = real_of_rat\<rparr>"

section \<open>Results and their operators\<close>

text \<open>
  \<open>enum class Result : int32_t\<close> is declared with the same four enumerators in
  \<open>DPS310\<close>, in \<open>ADS1x1x\<close> and in the template class; one datatype stands for
  all of them. The global operators are defined once per class, as in the sources
  (\<open>DPS310.cpp\<close>, \<open>ADS1x1x.cpp\<close>).
\<close>

datatype Result = SUCCESS | FAILED_NOT_RESPONDING | FAILED_BUSY | FAILED_UNKNOWN

definition DPS310_not :: "Result \<Rightarrow> bool" where
  "DPS310_not result = (result \<noteq> SUCCESS)"

definition DPS310_and :: "Result \<Rightarrow> Result \<Rightarrow> Result" where
  "DPS310_and lhs rhs =
     (if lhs = SUCCESS \<and> rhs = SUCCESS then SUCCESS else FAILED_UNKNOWN)"

definition DPS310_or :: "Result \<Rightarrow> Result \<Rightarrow> Result" where
  "DPS310_or lhs rhs =
     (if lhs = SUCCESS \<or> rhs = SUCCESS then SUCCESS else FAILED_UNKNOWN)"

definition ADS1x1x_not :: "Result \<Rightarrow> bool" where
  "ADS1x1x_not result = (result \<noteq> SUCCESS)"

definition ADS1x1x_and :: "Result \<Rightarrow> Result \<Rightarrow> Result" where
  "ADS1x1x_and lhs rhs =
     (if lhs = SUCCESS \<and> rhs = SUCCESS then SUCCESS else FAILED_UNKNOWN)"

definition ADS1x1x_or :: "Result \<Rightarrow> Result \<Rightarrow> Result" where
  "ADS1x1x_or lhs rhs =
     (if lhs = SUCCESS \<or> rhs = SUCCESS then SUCCESS else FAILED_UNKNOWN)"

section \<open>The bus\<close>

text \<open>
  \<open>Wire\<close> is the global two-wire bus object of the platform library; the drivers use
  \<open>Wire.get_writer(address)\<close> and \<open>Wire.get_reader(address, n)\<close>, each of which
  yields an object that converts to \<open>false\<close> when the transaction cannot be made.
  The library is not part of the repository, so the bus is an environment:
  \<^item> \<open>answers\<close> is the script of what the bus does at the coming transactions, one
    entry per transaction: \<open>NACK\<close> (no object), or \<open>ACK bs\<close> (an object; a reader
    delivers the bytes \<open>bs\<close> in order). A reader asked for more bytes than \<open>bs\<close> holds,
    and any transaction after the end of the script, gets no object;
  \<^item> \<open>traffic\<close> is the log of the transactions made so far, one entry per
    \<open>get_writer\<close> or \<open>get_reader\<close> call. A driver call made no bus I/O exactly when it
    leaves the bus as it found it.
\<close>

datatype wire_answer = NACK | ACK "uint8_t list"

datatype wire_io =
    Sent uint8_t "uint8_t list"
  | Received uint8_t "uint8_t list"
  | Refused uint8_t

record wire =
  answers :: "wire_answer list"
  traffic :: "wire_io list"

fun next_answer :: "wire_answer list \<Rightarrow> wire_answer \<times> wire_answer list" where
  "next_answer [] = (NACK, [])"
| "next_answer (a # rest) = (a, rest)"

text \<open>A write transaction: \<open>get_writer(addr)\<close>, then \<open>writer << b\<close> for each byte.\<close>

definition wire_write :: "uint8_t \<Rightarrow> uint8_t list \<Rightarrow> wire \<Rightarrow> bool \<times> wire" where
  "wire_write addr bs w =
     (case next_answer (answers w) of
        (ACK _, rest) \<Rightarrow> (True, \<lparr>answers = rest, traffic = traffic w @ [Sent addr bs]\<rparr>)
      | (NACK, rest) \<Rightarrow> (False, \<lparr>answers = rest, traffic = traffic w @ [Refused addr]\<rparr>))"

text \<open>A read of one byte: \<open>get_reader(addr, 1)\<close>, then \<open>reader >> b\<close>.\<close>

definition wire_read1 :: "uint8_t \<Rightarrow> wire \<Rightarrow> uint8_t option \<times> wire" where
  "wire_read1 addr w =
     (case next_answer (answers w) of
        (ACK (b # _), rest) \<Rightarrow>
          (Some b, \<lparr>answers = rest, traffic = traffic w @ [Received addr [b]]\<rparr>)
      | (_, rest) \<Rightarrow> (None, \<lparr>answers = rest, traffic = traffic w @ [Refused addr]\<rparr>))"

text \<open>A read of two bytes: \<open>get_reader(addr, 2)\<close>, then \<open>reader >> byte1 >> byte2\<close>.\<close>

definition wire_read2 :: "uint8_t \<Rightarrow> wire \<Rightarrow> (uint8_t \<times> uint8_t) option \<times> wire" where
  "wire_read2 addr w =
     (case next_answer (answers w) of
        (ACK (byte1 # byte2 # _), rest) \<Rightarrow>
          (Some (byte1, byte2),
           \<lparr>answers = rest, traffic = traffic w @ [Received addr [byte1, byte2]]\<rparr>)
      | (_, rest) \<Rightarrow> (None, \<lparr>answers = rest, traffic = traffic w @ [Refused addr]\<rparr>))"

section \<open>Byte utilities\<close>

text \<open>
  \<open>setBit\<close>, \<open>setPattern\<close> and \<open>hasBitSet\<close> are declared alike in both headers,
  for \<open>uint8_t\<close> and for \<open>uint16_t\<close> targets. The target is promoted to 32 bits, the
  expression is evaluated there and the result is truncated on assignment.
\<close>

definition setBit8 :: "uint8_t \<Rightarrow> nat \<Rightarrow> int \<Rightarrow> uint8_t" where
  "setBit8 target position v =
     (if v > 0 then ucast ((ucast target :: uint32_t) OR push_bit position 1)
      else ucast ((ucast target :: uint32_t) AND NOT (push_bit position 1)))"

definition setBit16 :: "uint16_t \<Rightarrow> nat \<Rightarrow> int \<Rightarrow> uint16_t" where
  "setBit16 target position v =
     (if v > 0 then ucast ((ucast target :: uint32_t) OR push_bit position 1)
      else ucast ((ucast target :: uint32_t) AND NOT (push_bit position 1)))"

definition setPattern8 :: "uint8_t \<Rightarrow> nat \<Rightarrow> int32_t \<Rightarrow> nat \<Rightarrow> uint8_t" where
  "setPattern8 target position v width =
     ucast (((ucast target :: int32_t)
               AND NOT (push_bit position (drop_bit (8 - width) (0xFF :: int32_t))))
            OR push_bit position v)"

definition setPattern16 :: "uint16_t \<Rightarrow> nat \<Rightarrow> int32_t \<Rightarrow> nat \<Rightarrow> uint16_t" where
  "setPattern16 target position v width =
     ucast (((ucast target :: int32_t)
               AND NOT (push_bit position (drop_bit (16 - width) (0xFFFF :: int32_t))))
            OR push_bit position v)"

definition hasBitSet8 :: "uint8_t \<Rightarrow> nat \<Rightarrow> bool" where
  "hasBitSet8 target b = ((ucast target :: uint32_t) AND push_bit b 1 \<noteq> 0)"

definition hasBitSet16 :: "uint16_t \<Rightarrow> nat \<Rightarrow> bool" where
  "hasBitSet16 target b = ((ucast target :: uint32_t) AND push_bit b 1 \<noteq> 0)"

text \<open>
  \<open>twosComplement(raw_value, bit_length)\<close>, declared alike in \<open>DPS310.hpp\<close> and in the
  template header. The shifts \<open>1U << (bit_length - 1)\<close> and \<open>1U << bit_length\<close> are
  defined for \<open>1 \<le> bit_length \<le> 31\<close>; the callers pass 12, 16, 20 and 24.
\<close>

definition twosComplement :: "int32_t \<Rightarrow> nat \<Rightarrow> int32_t" where
  "twosComplement raw_value bit_length =
     (if raw_value AND push_bit (bit_length - 1) 1 \<noteq> 0
      then raw_value OR NOT (push_bit bit_length 1 - 1)
      else raw_value AND (push_bit bit_length 1 - 1))"

section \<open>The pressure and temperature sensor (\<open>DPS310\<close>)\<close>

text \<open>
  \<open>DPS310.cpp\<close> holds the implementation twice, once with the member names
  \<open>setAs\<close>, \<open>isIn\<close>, \<open>readByte\<close>, \<open>writeByte\<close>, \<open>bitIsSet\<close>, \<open>modifyByte\<close> and
  once with \<open>set\<close>, \<open>in\<close>, \<open>read\<close>, \<open>write\<close>, \<open>hasBitSet\<close>, \<open>setPattern\<close>; the two
  agree statement by statement. The names below are those of the second, which are
  the names of \<open>DPS310.hpp\<close>.
\<close>

subsection \<open>Settings and constants\<close>

datatype DPS310_Address = DPS310_PRIMARY | DPS310_SECONDARY

fun use_DPS310_Address :: "DPS310_Address \<Rightarrow> uint8_t" where
  "use_DPS310_Address DPS310_PRIMARY = 0x77"
| "use_DPS310_Address DPS310_SECONDARY = 0x76"

datatype SamplingRate =
    SAMPLING_1HZ | SAMPLING_2HZ | SAMPLING_4HZ | SAMPLING_8HZ
  | SAMPLING_16HZ | SAMPLING_32HZ | SAMPLING_64HZ | SAMPLING_128HZ

datatype Precision =
    LOW_1X | LOW_2X | LOW_4X | LOW_8X
  | STANDARD_16X | HIGH_32X | HIGH_64X | HIGH_128X

datatype OperationMode =
    STANDBY | ONE_SHOT_PRESSURE | ONE_SHOT_TEMPERATURE
  | CONTINUOUS_PRESSURE | CONTINUOUS_TEMPERATURE | CONTINUOUS_PRESSURE_AND_TEMPERATURE

fun use_OperationMode :: "OperationMode \<Rightarrow> int32_t" where
  "use_OperationMode STANDBY = 0"
| "use_OperationMode ONE_SHOT_PRESSURE = 1"
| "use_OperationMode ONE_SHOT_TEMPERATURE = 2"
| "use_OperationMode CONTINUOUS_PRESSURE = 5"
| "use_OperationMode CONTINUOUS_TEMPERATURE = 6"
| "use_OperationMode CONTINUOUS_PRESSURE_AND_TEMPERATURE = 7"

datatype TemperatureSource = ASIC_LOW_POWER | MEMS_HIGH_PRECISION

record DPS310_Settings =
  temperature_sampling_rate :: SamplingRate
  temperature_precision :: Precision
  temperature_source :: TemperatureSource
  pressure_sampling_rate :: SamplingRate
  pressure_precision :: Precision

text \<open>\<open>Settings(Presets::DEFAULT)\<close>.\<close>

definition DPS310_Settings_DEFAULT :: DPS310_Settings where
  "DPS310_Settings_DEFAULT =
     \<lparr>temperature_sampling_rate = SAMPLING_1HZ, temperature_precision = LOW_1X,
      temperature_source = MEMS_HIGH_PRECISION, pressure_sampling_rate = SAMPLING_1HZ,
      pressure_precision = LOW_2X\<rparr>"

fun getScaleFactorFor :: "'f float_ops \<Rightarrow> Precision \<Rightarrow> 'f" where
  "getScaleFactorFor fl LOW_1X = f_lit fl 524288"
| "getScaleFactorFor fl LOW_2X = f_lit fl 1572864"
| "getScaleFactorFor fl LOW_4X = f_lit fl 3670016"
| "getScaleFactorFor fl LOW_8X = f_lit fl 7864320"
| "getScaleFactorFor fl STANDARD_16X = f_lit fl 253952"
| "getScaleFactorFor fl HIGH_32X = f_lit fl 516096"
| "getScaleFactorFor fl HIGH_64X = f_lit fl 1040384"
| "getScaleFactorFor fl HIGH_128X = f_lit fl 2088960"

text \<open>
  \<open>enum class Register : uint8_t\<close> and the bit positions of \<open>enum class MEAS_CFG\<close>,
  by their values (\<open>use\<close> is a cast to the underlying type); only the enumerators
  that the modelled functions name.
\<close>

definition Register_PRS_B2 :: uint8_t where "Register_PRS_B2 = 0x00"
definition Register_PRS_B1 :: uint8_t where "Register_PRS_B1 = 0x01"
definition Register_PRS_B0 :: uint8_t where "Register_PRS_B0 = 0x02"
definition Register_TMP_B2 :: uint8_t where "Register_TMP_B2 = 0x03"
definition Register_TMP_B1 :: uint8_t where "Register_TMP_B1 = 0x04"
definition Register_TMP_B0 :: uint8_t where "Register_TMP_B0 = 0x05"
definition Register_MEAS_CFG :: uint8_t where "Register_MEAS_CFG = 0x08"

definition MEAS_CFG_TMP_RDY :: nat where "MEAS_CFG_TMP_RDY = 5"
definition MEAS_CFG_PRS_RDY :: nat where "MEAS_CFG_PRS_RDY = 4"
definition MEAS_CFG_MEAS_CTRL0 :: nat where "MEAS_CFG_MEAS_CTRL0 = 0"

subsection \<open>The object\<close>

datatype DPS310_State =
    DPS310_WAIT_SETUP | DPS310_WAIT_BEGIN | DPS310_IDLE
  | DPS310_TEMP_BUSY | DPS310_TEMP_COMPLETE | DPS310_TEMP_ERROR
  | DPS310_PRES_BUSY | DPS310_PRES_COMPLETE | DPS310_PRES_ERROR
  | DPS310_AVAILABLE

record DPS310_coef =
  c0 :: int32_t
  c1 :: int32_t
  c00 :: int32_t
  c10 :: int32_t
  c01 :: int32_t
  c11 :: int32_t
  c20 :: int32_t
  c21 :: int32_t
  c30 :: int32_t

record 'f DPS310_values =
  t_raw_scaled :: 'f
  temperature :: 'f
  p_raw_scaled :: 'f
  pressure :: 'f

text \<open>
  The members of the class, and \<open>dps_Wire\<close>: the global bus object, which the member
  functions read and change as they do the members.
\<close>

record 'f DPS310 =
  dps_state :: DPS310_State
  dps_error :: Result
  dps_error_message :: string
  dps_address :: DPS310_Address
  dps_settings :: DPS310_Settings
  dps_operation_mode :: OperationMode
  dps_coef :: DPS310_coef
  dps_values :: "'f DPS310_values"
  dps_Wire :: wire

text \<open>The constructor \<open>DPS310()\<close>, on a bus \<open>w\<close>.\<close>

definition DPS310_new :: "'f float_ops \<Rightarrow> wire \<Rightarrow> 'f DPS310" where
  "DPS310_new fl w =
     \<lparr>dps_state = DPS310_WAIT_SETUP, dps_error = FAILED_UNKNOWN, dps_error_message = [],
      dps_address = DPS310_PRIMARY, dps_settings = DPS310_Settings_DEFAULT,
      dps_operation_mode = STANDBY,
      dps_coef = \<lparr>c0 = 0, c1 = 0, c00 = 0, c10 = 0, c01 = 0, c11 = 0, c20 = 0, c21 = 0,
        c30 = 0\<rparr>,
      dps_values = \<lparr>t_raw_scaled = f_lit fl 0, temperature = f_lit fl 0,
        p_raw_scaled = f_lit fl 0, pressure = f_lit fl 0\<rparr>,
      dps_Wire = w\<rparr>"

definition DPS310_set :: "DPS310_State \<Rightarrow> 'f DPS310 \<Rightarrow> 'f DPS310" where
  "DPS310_set s d = d\<lparr>dps_state := s\<rparr>"

definition DPS310_in :: "DPS310_State \<Rightarrow> 'f DPS310 \<Rightarrow> bool" where
  "DPS310_in s d = (dps_state d = s)"

definition DPS310_available :: "'f DPS310 \<Rightarrow> bool" where
  "DPS310_available d = DPS310_in DPS310_AVAILABLE d"

definition DPS310_setError :: "Result \<Rightarrow> 'f DPS310 \<Rightarrow> 'f DPS310" where
  "DPS310_setError cause d =
     (let d = d\<lparr>dps_error := cause\<rparr> in
      case cause of
        FAILED_BUSY \<Rightarrow> d\<lparr>dps_error_message := ''Error: DPS310 is busy''\<rparr>
      | FAILED_NOT_RESPONDING \<Rightarrow> d\<lparr>dps_error_message := ''Error: DPS310 is not responding''\<rparr>
      | FAILED_UNKNOWN \<Rightarrow> d\<lparr>dps_error_message := ''Error: Unknown issue with DPS310''\<rparr>
      | SUCCESS \<Rightarrow> d)"

subsection \<open>Register access\<close>

text \<open>
  \<open>read(reg, uint8_t* dst)\<close>: the second component of the result is \<open>*dst\<close> after the
  call, \<open>dst\<close> is \<open>*dst\<close> before it. A failed read leaves \<open>*dst\<close> as it was.
\<close>

definition DPS310_read_reg :: "uint8_t \<Rightarrow> uint8_t \<Rightarrow> 'f DPS310 \<Rightarrow> Result \<times> uint8_t \<times> 'f DPS310" where
  "DPS310_read_reg reg dst d =
     (case wire_write (use_DPS310_Address (dps_address d)) [reg] (dps_Wire d) of
        (False, w) \<Rightarrow>
          (let d = DPS310_setError FAILED_NOT_RESPONDING (d\<lparr>dps_Wire := w\<rparr>)
           in (dps_error d, dst, d))
      | (True, w) \<Rightarrow>
          (case wire_read1 (use_DPS310_Address (dps_address d)) w of
             (None, w) \<Rightarrow>
               (let d = DPS310_setError FAILED_NOT_RESPONDING (d\<lparr>dps_Wire := w\<rparr>)
                in (dps_error d, dst, d))
           | (Some b, w) \<Rightarrow> (SUCCESS, b, d\<lparr>dps_Wire := w\<rparr>)))"

text \<open>
  \<open>write(reg, int src)\<close>: one payload byte when \<open>src <= 0xFF\<close>, else two, high byte
  first.
\<close>

definition write_payload :: "int32_t \<Rightarrow> uint8_t list" where
  "write_payload src =
     (if sint src \<le> 0xFF then [ucast src]
      else [ucast (signed_drop_bit 8 src AND 0xFF), ucast (src AND 0xFF)])"

definition DPS310_write_reg :: "uint8_t \<Rightarrow> int32_t \<Rightarrow> 'f DPS310 \<Rightarrow> Result \<times> 'f DPS310" where
  "DPS310_write_reg reg src d =
     (case wire_write (use_DPS310_Address (dps_address d)) (reg # write_payload src)
             (dps_Wire d) of
        (True, w) \<Rightarrow> (SUCCESS, d\<lparr>dps_Wire := w\<rparr>)
      | (False, w) \<Rightarrow>
          (let d = DPS310_setError FAILED_NOT_RESPONDING (d\<lparr>dps_Wire := w\<rparr>)
           in (dps_error d, d)))"

text \<open>
  \<open>applyOperationMode(mode)\<close>. The local \<open>meas_cfg\<close> is declared without a value and
  is read only after a successful \<open>read\<close> has stored one, so the value it starts
  with (0 here) never shows.
\<close>

definition DPS310_applyOperationMode :: "OperationMode \<Rightarrow> 'f DPS310 \<Rightarrow> Result \<times> 'f DPS310" where
  "DPS310_applyOperationMode mode d =
     (let (r, meas_cfg, d) = DPS310_read_reg Register_MEAS_CFG 0 d in
      if DPS310_not r then (dps_error d, d)
      else
        let meas_cfg = setPattern8 meas_cfg MEAS_CFG_MEAS_CTRL0 (use_OperationMode mode) 3;
            (r, d) = DPS310_write_reg Register_MEAS_CFG (ucast meas_cfg) d
        in if DPS310_not r then (dps_error d, d) else (SUCCESS, d))"

subsection \<open>The measurement state machine\<close>

text \<open>
  \<open>update()\<close>. Each branch declares its locals (\<open>meas_cfg\<close>; \<open>temp_msb\<close>,
  \<open>temp_mid\<close>, \<open>temp_lsb\<close>; \<open>pres_msb\<close>, \<open>pres_mid\<close>, \<open>pres_lsb\<close>) without a value
  and reads them after \<open>read\<close>, also when \<open>read\<close> has failed and stored nothing.
  \<open>uninit\<close> is what the locals hold when they are declared, in the order of their
  declaration (\<open>meas_cfg\<close> is the first). \<open>fl\<close> is the \<open>float\<close> conversions.

  The statement \<open>if (not read(reg, &x)) { set(err); }\<close> stands eight times in
  \<open>update()\<close>; \<open>DPS310_read_or_set reg err x d\<close> is that statement, run on the object
  \<open>d\<close> with \<open>x\<close> in the local: it gives the local and the object after it. Nothing
  leaves the branch there: the statements after it run in either case.
\<close>

definition DPS310_read_or_set ::
  "uint8_t \<Rightarrow> DPS310_State \<Rightarrow> uint8_t \<Rightarrow> 'f DPS310 \<Rightarrow> uint8_t \<times> 'f DPS310" where
  "DPS310_read_or_set reg err x d =
     (let (r, x, d) = DPS310_read_reg reg x d
      in (x, if DPS310_not r then DPS310_set err d else d))"

definition DPS310_update ::
  "('f :: {plus, times, inverse}) float_ops \<Rightarrow> uint8_t \<times> uint8_t \<times> uint8_t
     \<Rightarrow> 'f DPS310 \<Rightarrow> 'f DPS310" where
  "DPS310_update fl uninit d =
     (case dps_state d of
        DPS310_TEMP_BUSY \<Rightarrow>
          (let meas_cfg = fst uninit;
               (meas_cfg, d) = DPS310_read_or_set Register_MEAS_CFG DPS310_TEMP_ERROR meas_cfg d
           in if hasBitSet8 meas_cfg MEAS_CFG_TMP_RDY
              then DPS310_set DPS310_TEMP_COMPLETE d else d)
      | DPS310_TEMP_COMPLETE \<Rightarrow>
          (let (temp_msb, temp_mid, temp_lsb) = uninit;
               (temp_msb, d) = DPS310_read_or_set Register_TMP_B2 DPS310_TEMP_ERROR temp_msb d;
               (temp_mid, d) = DPS310_read_or_set Register_TMP_B1 DPS310_TEMP_ERROR temp_mid d;
               (temp_lsb, d) = DPS310_read_or_set Register_TMP_B0 DPS310_TEMP_ERROR temp_lsb d;
               tmp_reg = f_of_int32 fl
                 (twosComplement
                    (push_bit 16 (ucast temp_msb) OR push_bit 8 (ucast temp_mid)
                       OR ucast temp_lsb) 24);
               d = d\<lparr>dps_values := (dps_values d)
                     \<lparr>t_raw_scaled :=
                        tmp_reg / getScaleFactorFor fl (temperature_precision (dps_settings d))\<rparr>\<rparr>;
               d = d\<lparr>dps_values := (dps_values d)
                     \<lparr>temperature :=
                        f_lit fl 0.5 * f_of_int32 fl (c0 (dps_coef d))
                        + f_of_int32 fl (c1 (dps_coef d)) * t_raw_scaled (dps_values d)\<rparr>\<rparr>;
               d = DPS310_set DPS310_PRES_BUSY d;
               (r, d) = DPS310_applyOperationMode ONE_SHOT_PRESSURE d
           in if DPS310_not r then DPS310_set DPS310_PRES_ERROR d else d)
      | DPS310_TEMP_ERROR \<Rightarrow> DPS310_set DPS310_IDLE d
      | DPS310_PRES_BUSY \<Rightarrow>
          (let meas_cfg = fst uninit;
               (meas_cfg, d) = DPS310_read_or_set Register_MEAS_CFG DPS310_PRES_ERROR meas_cfg d
           in if hasBitSet8 meas_cfg MEAS_CFG_PRS_RDY
              then DPS310_set DPS310_PRES_COMPLETE d else d)
      | DPS310_PRES_COMPLETE \<Rightarrow>
          (let (pres_msb, pres_mid, pres_lsb) = uninit;
               (pres_msb, d) = DPS310_read_or_set Register_PRS_B2 DPS310_PRES_ERROR pres_msb d;
               (pres_mid, d) = DPS310_read_or_set Register_PRS_B1 DPS310_PRES_ERROR pres_mid d;
               (pres_lsb, d) = DPS310_read_or_set Register_PRS_B0 DPS310_PRES_ERROR pres_lsb d;
               prs_reg = f_of_int32 fl
                 (twosComplement
                    (push_bit 16 (ucast pres_msb) OR push_bit 8 (ucast pres_mid)
                       OR ucast pres_lsb) 24);
               d = d\<lparr>dps_values := (dps_values d)
                     \<lparr>p_raw_scaled :=
                        prs_reg / getScaleFactorFor fl (pressure_precision (dps_settings d))\<rparr>\<rparr>;
               a = f_of_int32 fl (c00 (dps_coef d));
               b = p_raw_scaled (dps_values d)
                   * (f_of_int32 fl (c10 (dps_coef d))
                      + p_raw_scaled (dps_values d)
                        * (f_of_int32 fl (c20 (dps_coef d))
                           + p_raw_scaled (dps_values d) * f_of_int32 fl (c30 (dps_coef d))));
               c = t_raw_scaled (dps_values d)
                   * (f_of_int32 fl (c01 (dps_coef d))
                      + p_raw_scaled (dps_values d)
                        * (f_of_int32 fl (c11 (dps_coef d))
                           + p_raw_scaled (dps_values d) * f_of_int32 fl (c21 (dps_coef d))));
               d = d\<lparr>dps_values := (dps_values d)\<lparr>pressure := (a + b + c) / f_lit fl 100\<rparr>\<rparr>
           in DPS310_set DPS310_AVAILABLE d)
      | DPS310_PRES_ERROR \<Rightarrow> DPS310_set DPS310_IDLE d
      | _ \<Rightarrow> d)"

text \<open>\<open>request()\<close>.\<close>

definition DPS310_request :: "'f DPS310 \<Rightarrow> Result \<times> 'f DPS310" where
  "DPS310_request d =
     (if \<not> DPS310_in DPS310_IDLE d then
        (let d = DPS310_setError FAILED_BUSY d in (dps_error d, d))
      else
        let (r, d) = DPS310_applyOperationMode ONE_SHOT_TEMPERATURE d in
        if DPS310_not r then (dps_error d, d)
        else (SUCCESS, DPS310_set DPS310_TEMP_BUSY d))"

text \<open>
  \<open>read(float* temperature, float* pressure)\<close>: the first argument is what the two
  outputs hold before the call, the second component of the result what they hold
  after it.
\<close>

definition DPS310_read :: "'f \<times> 'f \<Rightarrow> 'f DPS310 \<Rightarrow> Result \<times> ('f \<times> 'f) \<times> 'f DPS310" where
  "DPS310_read out d =
     (if \<not> DPS310_in DPS310_AVAILABLE d then
        (let d = DPS310_setError FAILED_BUSY d in (dps_error d, out, d))
      else
        (SUCCESS, (temperature (dps_values d), pressure (dps_values d)),
         DPS310_set DPS310_IDLE d))"

section \<open>The analog-to-digital converter (\<open>ADS1x1x\<close>)\<close>

subsection \<open>Settings and constants\<close>

datatype ADS1x1x_Address =
  ADS1x1x_PRIMARY | ADS1x1x_SECONDARY | ADS1x1x_TERTIARY | ADS1x1x_QUATERNARY

fun use_ADS1x1x_Address :: "ADS1x1x_Address \<Rightarrow> uint8_t" where
  "use_ADS1x1x_Address ADS1x1x_PRIMARY = 0x48"
| "use_ADS1x1x_Address ADS1x1x_SECONDARY = 0x49"
| "use_ADS1x1x_Address ADS1x1x_TERTIARY = 0x4A"
| "use_ADS1x1x_Address ADS1x1x_QUATERNARY = 0x4B"

datatype DeviceType = ADS101x | ADS111x

datatype ChannelConfig =
    AIN0_AIN1 | AIN0_AIN3 | AIN1_AIN3 | AIN2_AIN3
  | AIN0_GND | AIN1_GND | AIN2_GND | AIN3_GND

datatype FullScaleRange =
  FSR_6144mV | FSR_4096mV | FSR_2048mV | FSR_1024mV | FSR_0512mV | FSR_0256mV

fun use_FullScaleRange :: "FullScaleRange \<Rightarrow> int" where
  "use_FullScaleRange FSR_6144mV = 6144"
| "use_FullScaleRange FSR_4096mV = 4096"
| "use_FullScaleRange FSR_2048mV = 2048"
| "use_FullScaleRange FSR_1024mV = 1024"
| "use_FullScaleRange FSR_0512mV = 512"
| "use_FullScaleRange FSR_0256mV = 256"

datatype DataRate =
    DR_0128SPS | DR_0250SPS
  | DR_0490SPS | DR_0920SPS | DR_1600SPS | DR_2400SPS | DR_3300SPS
  | DR_0008SPS | DR_0016SPS | DR_0032SPS | DR_0064SPS | DR_0475SPS | DR_0860SPS

fun use_DataRate :: "DataRate \<Rightarrow> int" where
  "use_DataRate DR_0128SPS = 128"
| "use_DataRate DR_0250SPS = 250"
| "use_DataRate DR_0490SPS = 490"
| "use_DataRate DR_0920SPS = 920"
| "use_DataRate DR_1600SPS = 1600"
| "use_DataRate DR_2400SPS = 2400"
| "use_DataRate DR_3300SPS = 3300"
| "use_DataRate DR_0008SPS = 8"
| "use_DataRate DR_0016SPS = 16"
| "use_DataRate DR_0032SPS = 32"
| "use_DataRate DR_0064SPS = 64"
| "use_DataRate DR_0475SPS = 475"
| "use_DataRate DR_0860SPS = 860"

record ADS1x1x_Settings =
  channel_config :: ChannelConfig
  full_scale_range :: FullScaleRange
  data_rate :: DataRate

text \<open>\<open>Settings(Presets::DEFAULT)\<close>.\<close>

definition ADS1x1x_Settings_DEFAULT :: ADS1x1x_Settings where
  "ADS1x1x_Settings_DEFAULT =
     \<lparr>channel_config = AIN0_AIN1, full_scale_range = FSR_2048mV, data_rate = DR_0128SPS\<rparr>"

text \<open>
  \<open>getConversionDelay(dr)\<close>: the quotient is taken in \<open>int\<close> (both operands are
  positive, so truncation is \<open>div\<close>) and converted to \<open>uint32_t\<close>.
\<close>

definition getConversionDelay :: "DataRate \<Rightarrow> uint32_t" where
  "getConversionDelay dr = word_of_int ((1000 + use_DataRate dr - 1) div use_DataRate dr)"

definition Register_CONVERSION_REGISTER :: uint8_t where "Register_CONVERSION_REGISTER = 0x00"
definition Register_CONFIG_REGISTER :: uint8_t where "Register_CONFIG_REGISTER = 0x01"

definition CONF_OS :: nat where "CONF_OS = 15"
definition CONF_MUX0 :: nat where "CONF_MUX0 = 12"

subsection \<open>The object\<close>

datatype ADS1x1x_State =
    ADS1x1x_WAIT_SETUP | ADS1x1x_WAIT_BEGIN | ADS1x1x_IDLE
  | ADS1x1x_BUSY | ADS1x1x_COMPLETE | ADS1x1x_ERROR | ADS1x1x_AVAILABLE

record ADS1x1x_values =
  raw :: uint16_t
  voltage :: uint16_t

text \<open>
  The members of the class, and \<open>ads_Wire\<close>: the global bus object, as for the
  pressure sensor.
\<close>

record ADS1x1x =
  ads_state :: ADS1x1x_State
  ads_error :: Result
  ads_error_message :: string
  ads_address :: ADS1x1x_Address
  ads_settings :: ADS1x1x_Settings
  ads_device_type :: DeviceType
  ads_latest_request_time :: uint32_t
  ads_values :: ADS1x1x_values
  ads_Wire :: wire

text \<open>
  The constructor \<open>ADS1x1x()\<close>, on a bus \<open>w\<close>. It gives \<open>_error\<close> and
  \<open>_error_message\<close> no value: \<open>e\<close> and \<open>msg\<close> are what they hold.
\<close>

definition ADS1x1x_new :: "Result \<Rightarrow> string \<Rightarrow> wire \<Rightarrow> ADS1x1x" where
  "ADS1x1x_new e msg w =
     \<lparr>ads_state = ADS1x1x_WAIT_SETUP, ads_error = e, ads_error_message = msg,
      ads_address = ADS1x1x_PRIMARY, ads_settings = ADS1x1x_Settings_DEFAULT,
      ads_device_type = ADS101x, ads_latest_request_time = 0,
      ads_values = \<lparr>raw = 0, voltage = 0\<rparr>, ads_Wire = w\<rparr>"

definition ADS1x1x_set :: "ADS1x1x_State \<Rightarrow> ADS1x1x \<Rightarrow> ADS1x1x" where
  "ADS1x1x_set s a = a\<lparr>ads_state := s\<rparr>"

definition ADS1x1x_in :: "ADS1x1x_State \<Rightarrow> ADS1x1x \<Rightarrow> bool" where
  "ADS1x1x_in s a = (ads_state a = s)"

definition ADS1x1x_available :: "ADS1x1x \<Rightarrow> bool" where
  "ADS1x1x_available a = ADS1x1x_in ADS1x1x_AVAILABLE a"

definition ADS1x1x_setError :: "Result \<Rightarrow> ADS1x1x \<Rightarrow> ADS1x1x" where
  "ADS1x1x_setError cause a =
     (let a = a\<lparr>ads_error := cause\<rparr> in
      case cause of
        FAILED_BUSY \<Rightarrow> a\<lparr>ads_error_message := ''Error: ADS1x1x is busy''\<rparr>
      | FAILED_NOT_RESPONDING \<Rightarrow>
          a\<lparr>ads_error_message := ''Error: ADS1x1x is not responding''\<rparr>
      | FAILED_UNKNOWN \<Rightarrow> a\<lparr>ads_error_message := ''Error: Unknown issue with ADS1x1x''\<rparr>
      | SUCCESS \<Rightarrow> a)"

subsection \<open>Register access\<close>

text \<open>
  \<open>read(reg, uint16_t* dst)\<close>: two bytes, the high byte first. A failed read leaves
  \<open>*dst\<close> as it was.
\<close>

definition ADS1x1x_read_reg16 ::
  "uint8_t \<Rightarrow> uint16_t \<Rightarrow> ADS1x1x \<Rightarrow> Result \<times> uint16_t \<times> ADS1x1x" where
  "ADS1x1x_read_reg16 reg dst a =
     (case wire_write (use_ADS1x1x_Address (ads_address a)) [reg] (ads_Wire a) of
        (False, w) \<Rightarrow>
          (let a = ADS1x1x_setError FAILED_NOT_RESPONDING (a\<lparr>ads_Wire := w\<rparr>)
           in (ads_error a, dst, a))
      | (True, w) \<Rightarrow>
          (case wire_read2 (use_ADS1x1x_Address (ads_address a)) w of
             (None, w) \<Rightarrow>
               (let a = ADS1x1x_setError FAILED_NOT_RESPONDING (a\<lparr>ads_Wire := w\<rparr>)
                in (ads_error a, dst, a))
           | (Some (byte1, byte2), w) \<Rightarrow>
               (SUCCESS,
                ucast (push_bit 8 (ucast byte1 :: int32_t) OR ucast byte2),
                a\<lparr>ads_Wire := w\<rparr>)))"

definition ADS1x1x_write_reg :: "uint8_t \<Rightarrow> int32_t \<Rightarrow> ADS1x1x \<Rightarrow> Result \<times> ADS1x1x" where
  "ADS1x1x_write_reg reg src a =
     (case wire_write (use_ADS1x1x_Address (ads_address a)) (reg # write_payload src)
             (ads_Wire a) of
        (True, w) \<Rightarrow> (SUCCESS, a\<lparr>ads_Wire := w\<rparr>)
      | (False, w) \<Rightarrow>
          (let a = ADS1x1x_setError FAILED_NOT_RESPONDING (a\<lparr>ads_Wire := w\<rparr>)
           in (ads_error a, a)))"

subsection \<open>The conversion state machine\<close>

text \<open>
  \<open>update()\<close>. \<open>millis\<close> is what the clock's \<open>millis()\<close> returns during the call
  (an unsigned 32-bit count of milliseconds), \<open>uninit\<close> what the local \<open>conv_reg\<close>
  holds when it is declared.
\<close>

definition ADS1x1x_update :: "uint32_t \<Rightarrow> uint16_t \<Rightarrow> ADS1x1x \<Rightarrow> ADS1x1x" where
  "ADS1x1x_update millis uninit a =
     (case ads_state a of
        ADS1x1x_BUSY \<Rightarrow>
          (if millis - ads_latest_request_time a
                \<ge> getConversionDelay (data_rate (ads_settings a))
           then (ADS1x1x_set ADS1x1x_COMPLETE a)\<lparr>ads_latest_request_time := 0\<rparr>
           else a)
      | ADS1x1x_COMPLETE \<Rightarrow>
          (let conv_reg = uninit;
               (r, conv_reg, a) = ADS1x1x_read_reg16 Register_CONVERSION_REGISTER conv_reg a;
               a = (if ADS1x1x_not r then ADS1x1x_set ADS1x1x_ERROR a else a);
               a = (case ads_device_type a of
                      ADS101x \<Rightarrow>
                        (let a = a\<lparr>ads_values := (ads_values a)
                                   \<lparr>raw := ucast (drop_bit 4 (ucast conv_reg :: int32_t))\<rparr>\<rparr>
                         in a\<lparr>ads_values := (ads_values a)
                               \<lparr>voltage := word_of_int
                                  (uint (raw (ads_values a))
                                   * use_FullScaleRange (full_scale_range (ads_settings a))
                                   div 0x7FF)\<rparr>\<rparr>)
                    | ADS111x \<Rightarrow>
                        (let a = a\<lparr>ads_values := (ads_values a)\<lparr>raw := conv_reg\<rparr>\<rparr>
                         in a\<lparr>ads_values := (ads_values a)
                               \<lparr>voltage := word_of_int
                                  (uint (raw (ads_values a))
                                   * use_FullScaleRange (full_scale_range (ads_settings a))
                                   div 0x7FFF)\<rparr>\<rparr>))
           in ADS1x1x_set ADS1x1x_AVAILABLE a)
      | ADS1x1x_ERROR \<Rightarrow> ADS1x1x_set ADS1x1x_IDLE a
      | _ \<Rightarrow> a)"

text \<open>
  \<open>request(channel_config)\<close>, with \<open>cc\<close> for the argument. \<open>millis\<close> is what
  \<open>millis()\<close> returns when the request has been written. The local \<open>config_reg\<close> is
  read only after a successful \<open>read\<close>, so the value it starts with (0 here) never
  shows. \<open>ADS1x1x_request_config\<close> is the statements between the read and the write
  of the configuration register: \<open>setBit(&config_reg, CONF_OS, 1)\<close> and the switch
  over \<open>channel_config\<close>.
\<close>

definition ADS1x1x_request_config :: "ChannelConfig \<Rightarrow> uint16_t \<Rightarrow> uint16_t" where
  "ADS1x1x_request_config cc config_reg =
     (let config_reg = setBit16 config_reg CONF_OS 1
      in case cc of
           AIN0_AIN1 \<Rightarrow> setPattern16 config_reg CONF_MUX0 0 3
         | AIN0_AIN3 \<Rightarrow> setPattern16 config_reg CONF_MUX0 1 3
         | AIN1_AIN3 \<Rightarrow> setPattern16 config_reg CONF_MUX0 2 3
         | AIN2_AIN3 \<Rightarrow> setPattern16 config_reg CONF_MUX0 3 3
         | AIN0_GND \<Rightarrow> setPattern16 config_reg CONF_MUX0 4 3
         | AIN1_GND \<Rightarrow> setPattern16 config_reg CONF_MUX0 5 3
         | AIN2_GND \<Rightarrow> setPattern16 config_reg CONF_MUX0 6 3
         | AIN3_GND \<Rightarrow> setPattern16 config_reg CONF_MUX0 7 3)"

definition ADS1x1x_request :: "uint32_t \<Rightarrow> ChannelConfig \<Rightarrow> ADS1x1x \<Rightarrow> Result \<times> ADS1x1x" where
  "ADS1x1x_request millis cc a =
     (if \<not> ADS1x1x_in ADS1x1x_IDLE a then
        (let a = ADS1x1x_setError FAILED_BUSY a in (ads_error a, a))
      else
        let (r, config_reg, a) = ADS1x1x_read_reg16 Register_CONFIG_REGISTER 0 a in
        if ADS1x1x_not r then (ads_error a, a)
        else
          let config_reg = ADS1x1x_request_config cc config_reg;
              (r, a) = ADS1x1x_write_reg Register_CONFIG_REGISTER (ucast config_reg) a
          in if ADS1x1x_not r then (ads_error a, a)
             else (SUCCESS,
                   (ADS1x1x_set ADS1x1x_BUSY a)\<lparr>ads_latest_request_time := millis\<rparr>))"

text \<open>
  \<open>read(uint16_t* voltage)\<close>: the first argument is what the output holds before
  the call, the second component of the result what it holds after it.
\<close>

definition ADS1x1x_read :: "uint16_t \<Rightarrow> ADS1x1x \<Rightarrow> Result \<times> uint16_t \<times> ADS1x1x" where
  "ADS1x1x_read out a =
     (if \<not> ADS1x1x_in ADS1x1x_AVAILABLE a then
        (let a = ADS1x1x_setError FAILED_BUSY a in (ads_error a, out, a))
      else (SUCCESS, voltage (ads_values a), ADS1x1x_set ADS1x1x_IDLE a))"

section \<open>Properties\<close>

subsection \<open>Two's complement decoding\<close>

lemma twosComplement_signed_take_bit:
  assumes "0 < N" "N < 32"
  shows "twosComplement x N = signed_take_bit (N - 1) x"
proof (cases "bit x (N - 1)")
  case True
  with assms have "twosComplement x N = x OR NOT (mask N)"
    by (simp add: twosComplement_def and_exp_eq_0_iff_not_bit mask_eq_exp_minus_1)
  also have "\<dots> = signed_take_bit (N - 1) x"
  proof (rule bit_word_eqI)
    fix n assume n: "n < LENGTH(32)"
    consider "n < N - 1" | "n = N - 1" | "N \<le> n" by linarith
    then show "bit (x OR NOT (mask N)) n = bit (signed_take_bit (N - 1) x) n"
      using True assms n by cases (auto simp: bit_simps min_def)
  qed
  finally show ?thesis .
next
  case False
  with assms have "twosComplement x N = x AND mask N"
    by (simp add: twosComplement_def and_exp_eq_0_iff_not_bit mask_eq_exp_minus_1)
  also have "\<dots> = signed_take_bit (N - 1) x"
  proof (rule bit_word_eqI)
    fix n assume n: "n < LENGTH(32)"
    consider "n < N - 1" | "n = N - 1" | "N \<le> n" by linarith
    then show "bit (x AND mask N) n = bit (signed_take_bit (N - 1) x) n"
      using False assms n by cases (auto simp: bit_simps min_def)
  qed
  finally show ?thesis .
qed

lemma sint_signed_take_bit_low_bits:
  assumes "0 < N" "N < 32"
  shows "sint (signed_take_bit (N - 1) (word_of_int (v mod 2 ^ N) :: 32 word))
         = signed_take_bit (N - 1) v"
  using assms
  by (intro bit_eqI) (auto simp: bit_simps bit_sint_iff min_def simp flip: take_bit_eq_mod)

lemma twosComplement_decodes:
  assumes "0 < N" "N < 32" "- (2 ^ (N - 1)) \<le> v" "v < 2 ^ (N - 1)"
  shows "sint (twosComplement (word_of_int (v mod 2 ^ N)) N) = v"
proof -
  have "sint (twosComplement (word_of_int (v mod 2 ^ N)) N)
        = sint (signed_take_bit (N - 1) (word_of_int (v mod 2 ^ N) :: 32 word))"
    by (simp only: twosComplement_signed_take_bit [OF assms(1,2)])
  also have "\<dots> = signed_take_bit (N - 1) v"
    by (rule sint_signed_take_bit_low_bits [OF assms(1,2)])
  also have "\<dots> = v"
    by (rule signed_take_bit_int_eq_self [OF assms(3,4)])
  finally show ?thesis .
qed

text \<open>C7: for a bit length N of 12, 16, 20 or 24 and a signed value v that fits N bits,
  twosComplement applied to the low N bits of v, with bit length N, gives v back; a raw
  value with the top bit set is sign-extended: twosComplement(0x800000, 24) is -8388608.\<close>

theorem twosComplement_inverts_encoding:
  assumes "N \<in> {12, 16, 20, 24}" and "- (2 ^ (N - 1)) \<le> v" and "v < 2 ^ (N - 1)"
  shows "sint (twosComplement (word_of_int (v mod 2 ^ N)) N) = v
         \<and> sint (twosComplement 0x800000 24) = - 8388608"
proof -
  from assms(1) have "0 < N" "N < 32" by auto
  then have "sint (twosComplement (word_of_int (v mod 2 ^ N)) N) = v"
    using assms(2,3) by (rule twosComplement_decodes)
  moreover have "sint (twosComplement 0x800000 24) = - 8388608"
    by (simp add: twosComplement_def)
  ultimately show ?thesis by simp
qed

theorem twosComplement_inverts_encoding_witness:
  "(24 :: nat) \<in> {12, 16, 20, 24}
   \<and> - (2 ^ (24 - 1)) \<le> (- 8388608 :: int) \<and> (- 8388608 :: int) < 2 ^ (24 - 1)
   \<and> sint (twosComplement (word_of_int ((- 8388608) mod 2 ^ 24)) 24) = - 8388608
   \<and> (12 :: nat) \<in> {12, 16, 20, 24}
   \<and> - (2 ^ (12 - 1)) \<le> (1234 :: int) \<and> (1234 :: int) < 2 ^ (12 - 1)
   \<and> sint (twosComplement (word_of_int (1234 mod 2 ^ 12)) 12) = 1234"
  using twosComplement_inverts_encoding [of 24 "- 8388608"]
    twosComplement_inverts_encoding [of 12 1234]
  by simp

subsection \<open>The Result operators\<close>

text \<open>C8 (DPS310 and ADS1x1x): the AND operator gives SUCCESS exactly when both operands are
  SUCCESS, the OR operator exactly when at least one is; every other combination gives
  FAILED_UNKNOWN, so two distinct specific failures collapse to FAILED_UNKNOWN.\<close>

theorem result_operators:
  "(DPS310_and a b = SUCCESS) = (a = SUCCESS \<and> b = SUCCESS)
   \<and> (DPS310_and a b = FAILED_UNKNOWN) = (\<not> (a = SUCCESS \<and> b = SUCCESS))
   \<and> (DPS310_or a b = SUCCESS) = (a = SUCCESS \<or> b = SUCCESS)
   \<and> (DPS310_or a b = FAILED_UNKNOWN) = (\<not> (a = SUCCESS \<or> b = SUCCESS))
   \<and> (ADS1x1x_and a b = SUCCESS) = (a = SUCCESS \<and> b = SUCCESS)
   \<and> (ADS1x1x_and a b = FAILED_UNKNOWN) = (\<not> (a = SUCCESS \<and> b = SUCCESS))
   \<and> (ADS1x1x_or a b = SUCCESS) = (a = SUCCESS \<or> b = SUCCESS)
   \<and> (ADS1x1x_or a b = FAILED_UNKNOWN) = (\<not> (a = SUCCESS \<or> b = SUCCESS))
   \<and> (a \<noteq> SUCCESS \<and> b \<noteq> SUCCESS \<and> a \<noteq> b \<longrightarrow>
        DPS310_and a b = FAILED_UNKNOWN \<and> DPS310_or a b = FAILED_UNKNOWN
        \<and> ADS1x1x_and a b = FAILED_UNKNOWN \<and> ADS1x1x_or a b = FAILED_UNKNOWN)"
  by (simp add: DPS310_and_def DPS310_or_def ADS1x1x_and_def ADS1x1x_or_def)

theorem result_operators_witness:
  "FAILED_NOT_RESPONDING \<noteq> SUCCESS \<and> FAILED_BUSY \<noteq> SUCCESS
   \<and> FAILED_NOT_RESPONDING \<noteq> FAILED_BUSY
   \<and> DPS310_and FAILED_NOT_RESPONDING FAILED_BUSY = FAILED_UNKNOWN
   \<and> DPS310_or FAILED_NOT_RESPONDING FAILED_BUSY = FAILED_UNKNOWN
   \<and> ADS1x1x_and FAILED_NOT_RESPONDING FAILED_BUSY = FAILED_UNKNOWN
   \<and> ADS1x1x_or FAILED_NOT_RESPONDING FAILED_BUSY = FAILED_UNKNOWN
   \<and> DPS310_and SUCCESS FAILED_BUSY = FAILED_UNKNOWN
   \<and> DPS310_or SUCCESS FAILED_BUSY = SUCCESS
   \<and> ADS1x1x_and SUCCESS SUCCESS = SUCCESS
   \<and> ADS1x1x_or FAILED_BUSY SUCCESS = SUCCESS"
  using result_operators [of FAILED_NOT_RESPONDING FAILED_BUSY]
    result_operators [of SUCCESS FAILED_BUSY] result_operators [of SUCCESS SUCCESS]
    result_operators [of FAILED_BUSY SUCCESS]
  by (simp add: DPS310_and_def DPS310_or_def ADS1x1x_and_def ADS1x1x_or_def)

subsection \<open>Unfolding the model on a concrete input\<close>

lemmas DPS310_defs =
  DPS310_update_def DPS310_read_or_set_def DPS310_read_reg_def DPS310_write_reg_def
  DPS310_applyOperationMode_def DPS310_request_def DPS310_read_def DPS310_set_def
  DPS310_in_def DPS310_setError_def DPS310_not_def DPS310_new_def
  DPS310_Settings_DEFAULT_def wire_write_def wire_read1_def write_payload_def
  setPattern8_def hasBitSet8_def twosComplement_def exact_float_def of_rat_divide
  Register_PRS_B2_def Register_PRS_B1_def Register_PRS_B0_def
  Register_TMP_B2_def Register_TMP_B1_def Register_TMP_B0_def Register_MEAS_CFG_def
  MEAS_CFG_TMP_RDY_def MEAS_CFG_PRS_RDY_def MEAS_CFG_MEAS_CTRL0_def

lemmas ADS1x1x_defs =
  ADS1x1x_update_def ADS1x1x_read_reg16_def ADS1x1x_write_reg_def ADS1x1x_request_def
  ADS1x1x_request_config_def ADS1x1x_read_def ADS1x1x_set_def ADS1x1x_in_def
  ADS1x1x_available_def ADS1x1x_setError_def ADS1x1x_not_def ADS1x1x_new_def
  ADS1x1x_Settings_DEFAULT_def wire_write_def wire_read2_def write_payload_def
  setPattern16_def setBit16_def getConversionDelay_def
  Register_CONVERSION_REGISTER_def Register_CONFIG_REGISTER_def CONF_OS_def CONF_MUX0_def

subsection \<open>What the register accesses leave alone\<close>

lemma DPS310_setError_fields [simp]:
  "dps_state (DPS310_setError e d) = dps_state d"
  "dps_error (DPS310_setError e d) = e"
  "dps_address (DPS310_setError e d) = dps_address d"
  "dps_settings (DPS310_setError e d) = dps_settings d"
  "dps_coef (DPS310_setError e d) = dps_coef d"
  "dps_values (DPS310_setError e d) = dps_values d"
  "dps_Wire (DPS310_setError e d) = dps_Wire d"
  by (cases e; simp add: DPS310_setError_def)+

lemma DPS310_set_fields [simp]:
  "dps_state (DPS310_set s d) = s"
  "dps_error (DPS310_set s d) = dps_error d"
  "dps_error_message (DPS310_set s d) = dps_error_message d"
  "dps_address (DPS310_set s d) = dps_address d"
  "dps_settings (DPS310_set s d) = dps_settings d"
  "dps_coef (DPS310_set s d) = dps_coef d"
  "dps_values (DPS310_set s d) = dps_values d"
  "dps_Wire (DPS310_set s d) = dps_Wire d"
  by (simp_all add: DPS310_set_def)

lemma DPS310_read_reg_result:
  assumes "DPS310_read_reg reg dst d = (r, v, d')"
  shows "r = SUCCESS \<or> r = FAILED_NOT_RESPONDING \<and> v = dst \<and> dps_error d' = FAILED_NOT_RESPONDING"
    and "dps_state d' = dps_state d" and "dps_address d' = dps_address d"
    and "dps_settings d' = dps_settings d" and "dps_coef d' = dps_coef d"
    and "dps_values d' = dps_values d"
  using assms
  by (auto simp: DPS310_read_reg_def Let_def split: prod.splits bool.splits option.splits)

lemma DPS310_write_reg_result:
  assumes "DPS310_write_reg reg src d = (r, d')"
  shows "r = SUCCESS \<or> r = FAILED_NOT_RESPONDING \<and> dps_error d' = FAILED_NOT_RESPONDING"
    and "dps_state d' = dps_state d" and "dps_address d' = dps_address d"
    and "dps_settings d' = dps_settings d" and "dps_coef d' = dps_coef d"
    and "dps_values d' = dps_values d"
  using assms
  by (auto simp: DPS310_write_reg_def Let_def split: prod.splits bool.splits)

lemma DPS310_applyOperationMode_result:
  assumes "DPS310_applyOperationMode mode d = (r, d')"
  shows "r = SUCCESS \<or> r = FAILED_NOT_RESPONDING \<and> dps_error d' = FAILED_NOT_RESPONDING"
    and "dps_state d' = dps_state d" and "dps_address d' = dps_address d"
    and "dps_settings d' = dps_settings d" and "dps_coef d' = dps_coef d"
    and "dps_values d' = dps_values d"
proof -
  obtain r1 v1 d1 where rd: "DPS310_read_reg Register_MEAS_CFG 0 d = (r1, v1, d1)"
    by (cases "DPS310_read_reg Register_MEAS_CFG 0 d") auto
  obtain r2 d2 where wr:
    "DPS310_write_reg Register_MEAS_CFG
       (ucast (setPattern8 v1 MEAS_CFG_MEAS_CTRL0 (use_OperationMode mode) 3)) d1 = (r2, d2)"
    by (cases "DPS310_write_reg Register_MEAS_CFG
       (ucast (setPattern8 v1 MEAS_CFG_MEAS_CTRL0 (use_OperationMode mode) 3)) d1") auto
  note facts = DPS310_read_reg_result [OF rd] DPS310_write_reg_result [OF wr]
  from assms facts
  show "r = SUCCESS \<or> r = FAILED_NOT_RESPONDING \<and> dps_error d' = FAILED_NOT_RESPONDING"
    and "dps_state d' = dps_state d" and "dps_address d' = dps_address d"
    and "dps_settings d' = dps_settings d" and "dps_coef d' = dps_coef d"
    and "dps_values d' = dps_values d"
    by (auto simp: DPS310_applyOperationMode_def rd wr DPS310_not_def split: if_splits)
qed

lemma DPS310_read_or_set_fields [simp]:
  "dps_address (snd (DPS310_read_or_set reg err x d)) = dps_address d"
  "dps_settings (snd (DPS310_read_or_set reg err x d)) = dps_settings d"
  "dps_coef (snd (DPS310_read_or_set reg err x d)) = dps_coef d"
  "dps_values (snd (DPS310_read_or_set reg err x d)) = dps_values d"
proof -
  obtain r v d' where rd: "DPS310_read_reg reg x d = (r, v, d')"
    by (cases "DPS310_read_reg reg x d") auto
  from DPS310_read_reg_result [OF rd]
  show "dps_address (snd (DPS310_read_or_set reg err x d)) = dps_address d"
    and "dps_settings (snd (DPS310_read_or_set reg err x d)) = dps_settings d"
    and "dps_coef (snd (DPS310_read_or_set reg err x d)) = dps_coef d"
    and "dps_values (snd (DPS310_read_or_set reg err x d)) = dps_values d"
    by (simp_all add: DPS310_read_or_set_def rd)
qed

lemma DPS310_applyOperationMode_fields [simp]:
  "dps_state (snd (DPS310_applyOperationMode mode d)) = dps_state d"
  "dps_address (snd (DPS310_applyOperationMode mode d)) = dps_address d"
  "dps_settings (snd (DPS310_applyOperationMode mode d)) = dps_settings d"
  "dps_coef (snd (DPS310_applyOperationMode mode d)) = dps_coef d"
  "dps_values (snd (DPS310_applyOperationMode mode d)) = dps_values d"
proof -
  obtain r d' where ap: "DPS310_applyOperationMode mode d = (r, d')"
    by (cases "DPS310_applyOperationMode mode d") auto
  from DPS310_applyOperationMode_result [OF ap]
  show "dps_state (snd (DPS310_applyOperationMode mode d)) = dps_state d"
    and "dps_address (snd (DPS310_applyOperationMode mode d)) = dps_address d"
    and "dps_settings (snd (DPS310_applyOperationMode mode d)) = dps_settings d"
    and "dps_coef (snd (DPS310_applyOperationMode mode d)) = dps_coef d"
    and "dps_values (snd (DPS310_applyOperationMode mode d)) = dps_values d"
    by (simp_all add: ap)
qed

subsection \<open>The compensation formulas\<close>

lemma DPS310_update_TEMP_COMPLETE:
  assumes "dps_state d = DPS310_TEMP_COMPLETE"
  shows "temperature (dps_values (DPS310_update fl u d)) =
           f_lit fl 0.5 * f_of_int32 fl (c0 (dps_coef d))
           + f_of_int32 fl (c1 (dps_coef d)) * t_raw_scaled (dps_values (DPS310_update fl u d))"
  using assms by (simp add: DPS310_update_def Let_def case_prod_beta)

lemma DPS310_update_PRES_COMPLETE:
  assumes "dps_state d = DPS310_PRES_COMPLETE"
  shows "pressure (dps_values (DPS310_update fl u d)) =
           (f_of_int32 fl (c00 (dps_coef d))
            + p_raw_scaled (dps_values (DPS310_update fl u d))
              * (f_of_int32 fl (c10 (dps_coef d))
                 + p_raw_scaled (dps_values (DPS310_update fl u d))
                   * (f_of_int32 fl (c20 (dps_coef d))
                      + p_raw_scaled (dps_values (DPS310_update fl u d))
                        * f_of_int32 fl (c30 (dps_coef d))))
            + t_raw_scaled (dps_values d)
              * (f_of_int32 fl (c01 (dps_coef d))
                 + p_raw_scaled (dps_values (DPS310_update fl u d))
                   * (f_of_int32 fl (c11 (dps_coef d))
                      + p_raw_scaled (dps_values (DPS310_update fl u d))
                        * f_of_int32 fl (c21 (dps_coef d))))) / f_lit fl 100"
    and "dps_state (DPS310_update fl u d) = DPS310_AVAILABLE"
  using assms by (simp_all add: DPS310_update_def Let_def case_prod_beta)

lemma DPS310_update_keeps_t_raw_scaled:
  assumes "dps_state d \<noteq> DPS310_TEMP_COMPLETE"
  shows "t_raw_scaled (dps_values (DPS310_update fl u d)) = t_raw_scaled (dps_values d)"
  using assms
  by (cases "dps_state d") (simp_all add: DPS310_update_def Let_def case_prod_beta)

lemma DPS310_update_keeps_coef:
  "dps_coef (DPS310_update fl u d) = dps_coef d"
  by (cases "dps_state d") (simp_all add: DPS310_update_def Let_def case_prod_beta)

lemma DPS310_request_keeps_values:
  "dps_values (snd (DPS310_request d)) = dps_values d"
  "dps_coef (snd (DPS310_request d)) = dps_coef d"
  by (simp_all add: DPS310_request_def Let_def case_prod_beta)

lemma DPS310_read_keeps_values:
  "dps_values (snd (snd (DPS310_read out d))) = dps_values d"
  "dps_coef (snd (snd (DPS310_read out d))) = dps_coef d"
  by (simp_all add: DPS310_read_def Let_def)

text \<open>C1 (DPS310): update() in TEMP_COMPLETE stores temperature = 0.5 * c0 + c1 * t_raw_scaled;
  update() in PRES_COMPLETE stores pressure = (c00 + p * (c10 + p * (c20 + p * c30))
  + t * (c01 + p * (c11 + p * c21))) / 100, with p the p_raw_scaled it has just stored and t
  the t_raw_scaled the object held before the call, and leaves the state AVAILABLE. That t is
  the one of the temperature phase: only update() in TEMP_COMPLETE writes t_raw_scaled, and
  no update(), request() or read() changes a coefficient. The sums, products and quotient
  are those of the float type, whatever they round to; the coefficients enter through the
  conversion of int32_t to float.\<close>

theorem DPS310_update_compensation:
  "(dps_state d = DPS310_TEMP_COMPLETE \<longrightarrow>
      temperature (dps_values (DPS310_update fl u d)) =
        f_lit fl 0.5 * f_of_int32 fl (c0 (dps_coef d))
        + f_of_int32 fl (c1 (dps_coef d)) * t_raw_scaled (dps_values (DPS310_update fl u d)))
   \<and> (dps_state d = DPS310_PRES_COMPLETE \<longrightarrow>
      pressure (dps_values (DPS310_update fl u d)) =
        (f_of_int32 fl (c00 (dps_coef d))
         + p_raw_scaled (dps_values (DPS310_update fl u d))
           * (f_of_int32 fl (c10 (dps_coef d))
              + p_raw_scaled (dps_values (DPS310_update fl u d))
                * (f_of_int32 fl (c20 (dps_coef d))
                   + p_raw_scaled (dps_values (DPS310_update fl u d))
                     * f_of_int32 fl (c30 (dps_coef d))))
         + t_raw_scaled (dps_values d)
           * (f_of_int32 fl (c01 (dps_coef d))
              + p_raw_scaled (dps_values (DPS310_update fl u d))
                * (f_of_int32 fl (c11 (dps_coef d))
                   + p_raw_scaled (dps_values (DPS310_update fl u d))
                     * f_of_int32 fl (c21 (dps_coef d))))) / f_lit fl 100
      \<and> dps_state (DPS310_update fl u d) = DPS310_AVAILABLE)
   \<and> (dps_state d \<noteq> DPS310_TEMP_COMPLETE \<longrightarrow>
      t_raw_scaled (dps_values (DPS310_update fl u d)) = t_raw_scaled (dps_values d))
   \<and> dps_coef (DPS310_update fl u d) = dps_coef d
   \<and> dps_values (snd (DPS310_request d)) = dps_values d
   \<and> dps_coef (snd (DPS310_request d)) = dps_coef d
   \<and> dps_values (snd (snd (DPS310_read out d))) = dps_values d
   \<and> dps_coef (snd (snd (DPS310_read out d))) = dps_coef d"
  using DPS310_update_TEMP_COMPLETE [of d fl u] DPS310_update_PRES_COMPLETE [of d fl u]
    DPS310_update_keeps_t_raw_scaled [of d fl u] DPS310_update_keeps_coef [of fl u d]
    DPS310_request_keeps_values [of d] DPS310_read_keeps_values [of out d]
  by blast

theorem DPS310_update_compensation_witness:
  "(let k = \<lparr>c0 = 200, c1 = - 250, c00 = 1000, c10 = - 200, c01 = 80,
              c11 = 16, c20 = 30, c21 = - 8, c30 = 4\<rparr>;
        dT = (DPS310_new exact_float \<lparr>answers = [ACK [], ACK [0x01], ACK [], ACK [0x00], ACK [], ACK [0x00],
                                       ACK [], ACK [0xC0], ACK []], traffic = []\<rparr>)
               \<lparr>dps_state := DPS310_TEMP_COMPLETE, dps_coef := k\<rparr>;
        dP = (DPS310_new exact_float \<lparr>answers = [ACK [], ACK [0x18], ACK [], ACK [0x00], ACK [], ACK [0x00]],
                          traffic = []\<rparr>)
               \<lparr>dps_state := DPS310_PRES_COMPLETE, dps_coef := k,
                dps_values := \<lparr>t_raw_scaled = 1 / 8, temperature = 275 / 4,
                               p_raw_scaled = 0, pressure = 0\<rparr>\<rparr>
    in dps_state dT = DPS310_TEMP_COMPLETE
       \<and> t_raw_scaled (dps_values (DPS310_update exact_float (0, 0, 0) dT)) = 1 / 8
       \<and> temperature (dps_values (DPS310_update exact_float (0, 0, 0) dT)) = 275 / 4
       \<and> temperature (dps_values (DPS310_update exact_float (0, 0, 0) dT)) =
           f_lit exact_float 0.5 * f_of_int32 exact_float (c0 (dps_coef dT))
           + f_of_int32 exact_float (c1 (dps_coef dT))
             * t_raw_scaled (dps_values (DPS310_update exact_float (0, 0, 0) dT))
       \<and> dps_state (DPS310_update exact_float (0, 0, 0) dT) = DPS310_PRES_BUSY
       \<and> dps_state dP = DPS310_PRES_COMPLETE
       \<and> p_raw_scaled (dps_values (DPS310_update exact_float (0, 0, 0) dP)) = 1
       \<and> t_raw_scaled (dps_values (DPS310_update exact_float (0, 0, 0) dP)) = 1 / 8
       \<and> pressure (dps_values (DPS310_update exact_float (0, 0, 0) dP)) = 169 / 20
       \<and> dps_state (DPS310_update exact_float (0, 0, 0) dP) = DPS310_AVAILABLE)"
  using
    DPS310_update_compensation
      [of "(DPS310_new exact_float \<lparr>answers = [ACK [], ACK [0x01], ACK [], ACK [0x00], ACK [], ACK [0x00],
                                      ACK [], ACK [0xC0], ACK []], traffic = []\<rparr>)
               \<lparr>dps_state := DPS310_TEMP_COMPLETE,
                dps_coef := \<lparr>c0 = 200, c1 = - 250, c00 = 1000, c10 = - 200, c01 = 80,
                             c11 = 16, c20 = 30, c21 = - 8, c30 = 4\<rparr>\<rparr>"
          exact_float "(0, 0, 0)" "(0, 0)"]
    DPS310_update_compensation
      [of "(DPS310_new exact_float \<lparr>answers = [ACK [], ACK [0x18], ACK [], ACK [0x00], ACK [], ACK [0x00]],
                          traffic = []\<rparr>)
               \<lparr>dps_state := DPS310_PRES_COMPLETE,
                dps_coef := \<lparr>c0 = 200, c1 = - 250, c00 = 1000, c10 = - 200, c01 = 80,
                             c11 = 16, c20 = 30, c21 = - 8, c30 = 4\<rparr>,
                dps_values := \<lparr>t_raw_scaled = 1 / 8, temperature = 275 / 4,
                               p_raw_scaled = 0, pressure = 0\<rparr>\<rparr>"
          exact_float "(0, 0, 0)" "(0, 0)"]
  by (simp add: DPS310_defs Let_def)

text \<open>
  A whole cycle on a bus that answers every transaction: request(), four update() calls
  and read(), with the coefficients of the example above, raw temperature 0x010000 at
  1x oversampling (scale factor 524288) and raw pressure 0x180000 at 2x (1572864).
\<close>

lemma DPS310_cycle_on_scripted_bus:
  "(let w = \<lparr>answers =
               [ACK [], ACK [0x00], ACK [],
                ACK [], ACK [0x20],
                ACK [], ACK [0x01], ACK [], ACK [0x00], ACK [], ACK [0x00],
                ACK [], ACK [0x00], ACK [],
                ACK [], ACK [0x10],
                ACK [], ACK [0x18], ACK [], ACK [0x00], ACK [], ACK [0x00]],
             traffic = []\<rparr>;
        d0 = (DPS310_new exact_float w)
               \<lparr>dps_state := DPS310_IDLE,
                dps_coef := \<lparr>c0 = 200, c1 = - 250, c00 = 1000, c10 = - 200, c01 = 80,
                             c11 = 16, c20 = 30, c21 = - 8, c30 = 4\<rparr>\<rparr>;
        d1 = snd (DPS310_request d0);
        d2 = DPS310_update exact_float (0, 0, 0) d1;
        d3 = DPS310_update exact_float (0, 0, 0) d2;
        d4 = DPS310_update exact_float (0, 0, 0) d3;
        d5 = DPS310_update exact_float (0, 0, 0) d4
    in fst (DPS310_request d0) = SUCCESS
       \<and> dps_state d1 = DPS310_TEMP_BUSY
       \<and> dps_state d2 = DPS310_TEMP_COMPLETE
       \<and> dps_state d3 = DPS310_PRES_BUSY
       \<and> dps_state d4 = DPS310_PRES_COMPLETE
       \<and> dps_state d5 = DPS310_AVAILABLE
       \<and> fst (DPS310_read (0, 0) d5) = SUCCESS
       \<and> fst (snd (DPS310_read (0, 0) d5)) = (275 / 4, 169 / 20)
       \<and> dps_state (snd (snd (DPS310_read (0, 0) d5))) = DPS310_IDLE
       \<and> answers (dps_Wire d5) = [])"
  by code_simp

lemma ADS1x1x_setError_fields [simp]:
  "ads_state (ADS1x1x_setError e a) = ads_state a"
  "ads_error (ADS1x1x_setError e a) = e"
  "ads_address (ADS1x1x_setError e a) = ads_address a"
  "ads_settings (ADS1x1x_setError e a) = ads_settings a"
  "ads_device_type (ADS1x1x_setError e a) = ads_device_type a"
  "ads_latest_request_time (ADS1x1x_setError e a) = ads_latest_request_time a"
  "ads_values (ADS1x1x_setError e a) = ads_values a"
  "ads_Wire (ADS1x1x_setError e a) = ads_Wire a"
  by (cases e; simp add: ADS1x1x_setError_def)+

lemma ADS1x1x_set_fields [simp]:
  "ads_state (ADS1x1x_set s a) = s"
  "ads_error (ADS1x1x_set s a) = ads_error a"
  "ads_error_message (ADS1x1x_set s a) = ads_error_message a"
  "ads_address (ADS1x1x_set s a) = ads_address a"
  "ads_settings (ADS1x1x_set s a) = ads_settings a"
  "ads_device_type (ADS1x1x_set s a) = ads_device_type a"
  "ads_latest_request_time (ADS1x1x_set s a) = ads_latest_request_time a"
  "ads_values (ADS1x1x_set s a) = ads_values a"
  "ads_Wire (ADS1x1x_set s a) = ads_Wire a"
  by (simp_all add: ADS1x1x_set_def)

lemma ADS1x1x_read_reg16_result:
  assumes "ADS1x1x_read_reg16 reg dst a = (r, v, a')"
  shows "r = SUCCESS \<or> r = FAILED_NOT_RESPONDING \<and> v = dst \<and> ads_error a' = FAILED_NOT_RESPONDING"
    and "ads_state a' = ads_state a" and "ads_address a' = ads_address a"
    and "ads_settings a' = ads_settings a" and "ads_device_type a' = ads_device_type a"
    and "ads_latest_request_time a' = ads_latest_request_time a"
    and "ads_values a' = ads_values a"
  using assms
  by (auto simp: ADS1x1x_read_reg16_def Let_def split: prod.splits bool.splits option.splits)

lemma ADS1x1x_write_reg_result:
  assumes "ADS1x1x_write_reg reg src a = (r, a')"
  shows "r = SUCCESS \<or> r = FAILED_NOT_RESPONDING \<and> ads_error a' = FAILED_NOT_RESPONDING"
    and "ads_state a' = ads_state a" and "ads_address a' = ads_address a"
    and "ads_settings a' = ads_settings a" and "ads_device_type a' = ads_device_type a"
    and "ads_latest_request_time a' = ads_latest_request_time a"
    and "ads_values a' = ads_values a"
  using assms
  by (auto simp: ADS1x1x_write_reg_def Let_def split: prod.splits bool.splits)

subsection \<open>Requests and reads out of turn\<close>

lemma DPS310_request_not_idle:
  assumes "dps_state d \<noteq> DPS310_IDLE"
  shows "DPS310_request d =
           (FAILED_BUSY,
            d\<lparr>dps_error := FAILED_BUSY, dps_error_message := ''Error: DPS310 is busy''\<rparr>)"
  using assms by (simp add: DPS310_request_def DPS310_in_def DPS310_setError_def)

lemma ADS1x1x_request_not_idle:
  assumes "ads_state a \<noteq> ADS1x1x_IDLE"
  shows "ADS1x1x_request millis cc a =
           (FAILED_BUSY,
            a\<lparr>ads_error := FAILED_BUSY, ads_error_message := ''Error: ADS1x1x is busy''\<rparr>)"
  using assms by (simp add: ADS1x1x_request_def ADS1x1x_in_def ADS1x1x_setError_def)

lemma DPS310_request_success:
  assumes "fst (DPS310_request d) = SUCCESS"
  shows "dps_state d = DPS310_IDLE" and "dps_state (snd (DPS310_request d)) = DPS310_TEMP_BUSY"
proof -
  show idle: "dps_state d = DPS310_IDLE"
    using assms DPS310_request_not_idle [of d] by (cases "dps_state d = DPS310_IDLE") auto
  obtain r d' where ap: "DPS310_applyOperationMode ONE_SHOT_TEMPERATURE d = (r, d')"
    by (cases "DPS310_applyOperationMode ONE_SHOT_TEMPERATURE d") auto
  from assms idle DPS310_applyOperationMode_result(1) [OF ap]
  show "dps_state (snd (DPS310_request d)) = DPS310_TEMP_BUSY"
    by (auto simp: DPS310_request_def DPS310_in_def DPS310_not_def ap split: if_splits)
qed

lemma ADS1x1x_request_idle:
  assumes idle: "ads_state a = ADS1x1x_IDLE"
    and rd: "ADS1x1x_read_reg16 Register_CONFIG_REGISTER 0 a = (r1, v1, a1)"
    and wr: "ADS1x1x_write_reg Register_CONFIG_REGISTER
               (ucast (ADS1x1x_request_config cc v1)) a1 = (r2, a2)"
  shows "r1 \<noteq> SUCCESS \<Longrightarrow> ADS1x1x_request millis cc a = (FAILED_NOT_RESPONDING, a1)"
    and "r1 = SUCCESS \<Longrightarrow> r2 \<noteq> SUCCESS \<Longrightarrow>
           ADS1x1x_request millis cc a = (FAILED_NOT_RESPONDING, a2)"
    and "r1 = SUCCESS \<Longrightarrow> r2 = SUCCESS \<Longrightarrow>
           ADS1x1x_request millis cc a =
             (SUCCESS, a2\<lparr>ads_state := ADS1x1x_BUSY, ads_latest_request_time := millis\<rparr>)"
    and "ads_state a1 = ADS1x1x_IDLE" and "ads_state a2 = ADS1x1x_IDLE"
    and "ads_latest_request_time a1 = ads_latest_request_time a"
    and "ads_latest_request_time a2 = ads_latest_request_time a"
  using idle ADS1x1x_read_reg16_result [OF rd] ADS1x1x_write_reg_result [OF wr]
  by (auto simp: ADS1x1x_request_def ADS1x1x_in_def ADS1x1x_not_def ADS1x1x_set_def rd wr)

lemma ADS1x1x_request_success:
  assumes "fst (ADS1x1x_request millis cc a) = SUCCESS"
  shows "ads_state a = ADS1x1x_IDLE"
    and "ads_state (snd (ADS1x1x_request millis cc a)) = ADS1x1x_BUSY"
proof -
  show idle: "ads_state a = ADS1x1x_IDLE"
    using assms ADS1x1x_request_not_idle [of a millis cc]
    by (cases "ads_state a = ADS1x1x_IDLE") auto
  obtain r1 v1 a1 where rd: "ADS1x1x_read_reg16 Register_CONFIG_REGISTER 0 a = (r1, v1, a1)"
    by (cases "ADS1x1x_read_reg16 Register_CONFIG_REGISTER 0 a") auto
  obtain r2 a2 where wr:
    "ADS1x1x_write_reg Register_CONFIG_REGISTER (ucast (ADS1x1x_request_config cc v1)) a1
       = (r2, a2)"
    by (cases "ADS1x1x_write_reg Register_CONFIG_REGISTER
                 (ucast (ADS1x1x_request_config cc v1)) a1") auto
  from assms ADS1x1x_request_idle(1-3) [OF idle rd wr, of millis]
  show "ads_state (snd (ADS1x1x_request millis cc a)) = ADS1x1x_BUSY"
    by (cases "r1 = SUCCESS"; cases "r2 = SUCCESS") auto
qed

text \<open>C2 (both devices): request() in a state other than IDLE returns FAILED_BUSY, makes no
  bus transaction and leaves the state as it is (of the whole object only the error and its
  message change). So a request is accepted only in IDLE, and an accepted request leaves
  IDLE (for TEMP_BUSY, or BUSY): while a cycle is in flight no second one starts.\<close>

theorem request_out_of_idle:
  "(dps_state d \<noteq> DPS310_IDLE \<longrightarrow>
      fst (DPS310_request d) = FAILED_BUSY
      \<and> dps_Wire (snd (DPS310_request d)) = dps_Wire d
      \<and> dps_state (snd (DPS310_request d)) = dps_state d
      \<and> snd (DPS310_request d) =
          d\<lparr>dps_error := FAILED_BUSY, dps_error_message := ''Error: DPS310 is busy''\<rparr>)
   \<and> (ads_state a \<noteq> ADS1x1x_IDLE \<longrightarrow>
      fst (ADS1x1x_request millis cc a) = FAILED_BUSY
      \<and> ads_Wire (snd (ADS1x1x_request millis cc a)) = ads_Wire a
      \<and> ads_state (snd (ADS1x1x_request millis cc a)) = ads_state a
      \<and> snd (ADS1x1x_request millis cc a) =
          a\<lparr>ads_error := FAILED_BUSY, ads_error_message := ''Error: ADS1x1x is busy''\<rparr>)
   \<and> (fst (DPS310_request d) = SUCCESS \<longrightarrow>
      dps_state d = DPS310_IDLE \<and> dps_state (snd (DPS310_request d)) = DPS310_TEMP_BUSY)
   \<and> (fst (ADS1x1x_request millis cc a) = SUCCESS \<longrightarrow>
      ads_state a = ADS1x1x_IDLE
      \<and> ads_state (snd (ADS1x1x_request millis cc a)) = ADS1x1x_BUSY)"
  using DPS310_request_not_idle [of d] ADS1x1x_request_not_idle [of a millis cc]
    DPS310_request_success [of d] ADS1x1x_request_success [of millis cc a]
  by simp

theorem request_out_of_idle_witness:
  "(let w = \<lparr>answers = [ACK [], ACK [0x00, 0x00], ACK []], traffic = []\<rparr>;
        d = (DPS310_new exact_float w)\<lparr>dps_state := DPS310_TEMP_BUSY\<rparr>;
        a = (ADS1x1x_new FAILED_UNKNOWN [] w)\<lparr>ads_state := ADS1x1x_BUSY\<rparr>;
        d0 = (DPS310_new exact_float w)\<lparr>dps_state := DPS310_IDLE\<rparr>;
        a0 = (ADS1x1x_new FAILED_UNKNOWN [] w)\<lparr>ads_state := ADS1x1x_IDLE\<rparr>
    in dps_state d \<noteq> DPS310_IDLE
       \<and> fst (DPS310_request d) = FAILED_BUSY
       \<and> dps_Wire (snd (DPS310_request d)) = w
       \<and> dps_state (snd (DPS310_request d)) = DPS310_TEMP_BUSY
       \<and> ads_state a \<noteq> ADS1x1x_IDLE
       \<and> fst (ADS1x1x_request 7 AIN0_GND a) = FAILED_BUSY
       \<and> ads_Wire (snd (ADS1x1x_request 7 AIN0_GND a)) = w
       \<and> ads_state (snd (ADS1x1x_request 7 AIN0_GND a)) = ADS1x1x_BUSY
       \<and> fst (DPS310_request d0) = SUCCESS
       \<and> dps_state d0 = DPS310_IDLE
       \<and> dps_state (snd (DPS310_request d0)) = DPS310_TEMP_BUSY
       \<and> fst (ADS1x1x_request 7 AIN0_GND a0) = SUCCESS
       \<and> ads_state a0 = ADS1x1x_IDLE
       \<and> ads_state (snd (ADS1x1x_request 7 AIN0_GND a0)) = ADS1x1x_BUSY)"
  using
    request_out_of_idle
      [of "(DPS310_new exact_float \<lparr>answers = [ACK [], ACK [0x00, 0x00], ACK []], traffic = []\<rparr>)
              \<lparr>dps_state := DPS310_TEMP_BUSY\<rparr>"
          "(ADS1x1x_new FAILED_UNKNOWN [] \<lparr>answers = [ACK [], ACK [0x00, 0x00], ACK []], traffic = []\<rparr>)
              \<lparr>ads_state := ADS1x1x_BUSY\<rparr>" 7 AIN0_GND]
    request_out_of_idle
      [of "(DPS310_new exact_float \<lparr>answers = [ACK [], ACK [0x00, 0x00], ACK []], traffic = []\<rparr>)
              \<lparr>dps_state := DPS310_IDLE\<rparr>"
          "(ADS1x1x_new FAILED_UNKNOWN [] \<lparr>answers = [ACK [], ACK [0x00, 0x00], ACK []], traffic = []\<rparr>)
              \<lparr>ads_state := ADS1x1x_IDLE\<rparr>" 7 AIN0_GND]
  by (simp add: DPS310_defs ADS1x1x_defs Let_def)

lemma DPS310_read_not_available:
  assumes "dps_state d \<noteq> DPS310_AVAILABLE"
  shows "DPS310_read out d =
           (FAILED_BUSY, out,
            d\<lparr>dps_error := FAILED_BUSY, dps_error_message := ''Error: DPS310 is busy''\<rparr>)"
  using assms by (simp add: DPS310_read_def DPS310_in_def DPS310_setError_def)

lemma DPS310_read_available:
  assumes "dps_state d = DPS310_AVAILABLE"
  shows "DPS310_read out d =
           (SUCCESS, (temperature (dps_values d), pressure (dps_values d)),
            d\<lparr>dps_state := DPS310_IDLE\<rparr>)"
  using assms by (simp add: DPS310_read_def DPS310_in_def DPS310_set_def)

lemma ADS1x1x_read_not_available:
  assumes "ads_state a \<noteq> ADS1x1x_AVAILABLE"
  shows "ADS1x1x_read out a =
           (FAILED_BUSY, out,
            a\<lparr>ads_error := FAILED_BUSY, ads_error_message := ''Error: ADS1x1x is busy''\<rparr>)"
  using assms by (simp add: ADS1x1x_read_def ADS1x1x_in_def ADS1x1x_setError_def)

lemma ADS1x1x_read_available:
  assumes "ads_state a = ADS1x1x_AVAILABLE"
  shows "ADS1x1x_read out a =
           (SUCCESS, voltage (ads_values a), a\<lparr>ads_state := ADS1x1x_IDLE\<rparr>)"
  using assms by (simp add: ADS1x1x_read_def ADS1x1x_in_def ADS1x1x_set_def)

text \<open>C3 (both devices): read() in a state other than AVAILABLE returns FAILED_BUSY, leaves
  the outputs as they were and makes no bus transaction; read() in AVAILABLE copies the
  latest values to the outputs, returns SUCCESS and leaves the state IDLE, so that a second
  read() right after it returns FAILED_BUSY and leaves its outputs as they were.\<close>

theorem read_out_of_available:
  "(dps_state d \<noteq> DPS310_AVAILABLE \<longrightarrow>
      fst (DPS310_read out d) = FAILED_BUSY
      \<and> fst (snd (DPS310_read out d)) = out
      \<and> dps_state (snd (snd (DPS310_read out d))) = dps_state d
      \<and> dps_Wire (snd (snd (DPS310_read out d))) = dps_Wire d)
   \<and> (dps_state d = DPS310_AVAILABLE \<longrightarrow>
      fst (DPS310_read out d) = SUCCESS
      \<and> fst (snd (DPS310_read out d)) = (temperature (dps_values d), pressure (dps_values d))
      \<and> dps_state (snd (snd (DPS310_read out d))) = DPS310_IDLE
      \<and> fst (DPS310_read out2 (snd (snd (DPS310_read out d)))) = FAILED_BUSY
      \<and> fst (snd (DPS310_read out2 (snd (snd (DPS310_read out d))))) = out2)
   \<and> (ads_state a \<noteq> ADS1x1x_AVAILABLE \<longrightarrow>
      fst (ADS1x1x_read v a) = FAILED_BUSY
      \<and> fst (snd (ADS1x1x_read v a)) = v
      \<and> ads_state (snd (snd (ADS1x1x_read v a))) = ads_state a
      \<and> ads_Wire (snd (snd (ADS1x1x_read v a))) = ads_Wire a)
   \<and> (ads_state a = ADS1x1x_AVAILABLE \<longrightarrow>
      fst (ADS1x1x_read v a) = SUCCESS
      \<and> fst (snd (ADS1x1x_read v a)) = voltage (ads_values a)
      \<and> ads_state (snd (snd (ADS1x1x_read v a))) = ADS1x1x_IDLE
      \<and> fst (ADS1x1x_read v2 (snd (snd (ADS1x1x_read v a)))) = FAILED_BUSY
      \<and> fst (snd (ADS1x1x_read v2 (snd (snd (ADS1x1x_read v a))))) = v2)"
proof -
  have "fst (DPS310_read out2 (d\<lparr>dps_state := DPS310_IDLE\<rparr>)) = FAILED_BUSY
        \<and> fst (snd (DPS310_read out2 (d\<lparr>dps_state := DPS310_IDLE\<rparr>))) = out2"
    by (simp add: DPS310_read_not_available)
  moreover
  have "fst (ADS1x1x_read v2 (a\<lparr>ads_state := ADS1x1x_IDLE\<rparr>)) = FAILED_BUSY
        \<and> fst (snd (ADS1x1x_read v2 (a\<lparr>ads_state := ADS1x1x_IDLE\<rparr>))) = v2"
    by (simp add: ADS1x1x_read_not_available)
  ultimately show ?thesis
    using DPS310_read_not_available [of d out] DPS310_read_available [of d out]
      ADS1x1x_read_not_available [of a v] ADS1x1x_read_available [of a v]
    by simp
qed

theorem read_out_of_available_witness:
  "(let w = \<lparr>answers = [ACK [], ACK [0x00, 0x00], ACK []], traffic = []\<rparr>;
        d = (DPS310_new exact_float w)\<lparr>dps_state := DPS310_PRES_BUSY\<rparr>;
        a = (ADS1x1x_new FAILED_UNKNOWN [] w)\<lparr>ads_state := ADS1x1x_COMPLETE\<rparr>;
        d1 = (DPS310_new exact_float w)\<lparr>dps_state := DPS310_AVAILABLE, dps_values := \<lparr>t_raw_scaled = 1 / 8, temperature = 275 / 4, p_raw_scaled = 1, pressure = 169 / 20\<rparr>\<rparr>;
        a1 = (ADS1x1x_new FAILED_UNKNOWN [] w)
               \<lparr>ads_state := ADS1x1x_AVAILABLE, ads_values := \<lparr>raw = 291, voltage = 1234\<rparr>\<rparr>
    in dps_state d \<noteq> DPS310_AVAILABLE
       \<and> fst (DPS310_read (1, 2) d) = FAILED_BUSY
       \<and> fst (snd (DPS310_read (1, 2) d)) = (1, 2)
       \<and> dps_state (snd (snd (DPS310_read (1, 2) d))) = DPS310_PRES_BUSY
       \<and> ads_state a \<noteq> ADS1x1x_AVAILABLE
       \<and> fst (ADS1x1x_read 5 a) = FAILED_BUSY
       \<and> fst (snd (ADS1x1x_read 5 a)) = 5
       \<and> ads_state (snd (snd (ADS1x1x_read 5 a))) = ADS1x1x_COMPLETE
       \<and> dps_state d1 = DPS310_AVAILABLE
       \<and> fst (DPS310_read (1, 2) d1) = SUCCESS
       \<and> fst (snd (DPS310_read (1, 2) d1)) = (275 / 4, 169 / 20)
       \<and> dps_state (snd (snd (DPS310_read (1, 2) d1))) = DPS310_IDLE
       \<and> fst (DPS310_read (3, 4) (snd (snd (DPS310_read (1, 2) d1)))) = FAILED_BUSY
       \<and> fst (snd (DPS310_read (3, 4) (snd (snd (DPS310_read (1, 2) d1))))) = (3, 4)
       \<and> ads_state a1 = ADS1x1x_AVAILABLE
       \<and> fst (ADS1x1x_read 5 a1) = SUCCESS
       \<and> fst (snd (ADS1x1x_read 5 a1)) = 1234
       \<and> ads_state (snd (snd (ADS1x1x_read 5 a1))) = ADS1x1x_IDLE
       \<and> fst (ADS1x1x_read 6 (snd (snd (ADS1x1x_read 5 a1)))) = FAILED_BUSY
       \<and> fst (snd (ADS1x1x_read 6 (snd (snd (ADS1x1x_read 5 a1))))) = 6)"
  using
    read_out_of_available
      [of "(DPS310_new exact_float \<lparr>answers = [ACK [], ACK [0x00, 0x00], ACK []], traffic = []\<rparr>)
              \<lparr>dps_state := DPS310_PRES_BUSY\<rparr>"
          "(1, 2)"
          "(3, 4)"
          "(ADS1x1x_new FAILED_UNKNOWN [] \<lparr>answers = [ACK [], ACK [0x00, 0x00], ACK []], traffic = []\<rparr>)
              \<lparr>ads_state := ADS1x1x_COMPLETE\<rparr>" 5 6]
    read_out_of_available
      [of "(DPS310_new exact_float \<lparr>answers = [ACK [], ACK [0x00, 0x00], ACK []], traffic = []\<rparr>)
              \<lparr>dps_state := DPS310_AVAILABLE, dps_values := \<lparr>t_raw_scaled = 1 / 8, temperature = 275 / 4, p_raw_scaled = 1, pressure = 169 / 20\<rparr>\<rparr>"
          "(1, 2)"
          "(3, 4)"
          "(ADS1x1x_new FAILED_UNKNOWN [] \<lparr>answers = [ACK [], ACK [0x00, 0x00], ACK []], traffic = []\<rparr>)
                  \<lparr>ads_state := ADS1x1x_AVAILABLE, ads_values := \<lparr>raw = 291, voltage = 1234\<rparr>\<rparr>" 5 6]
  by (simp add: DPS310_defs ADS1x1x_defs Let_def)

subsection \<open>The error states\<close>

text \<open>C6 (both devices): update() in TEMP_ERROR, in PRES_ERROR and in the converter's ERROR
  sets the state to IDLE and does nothing else: no bus transaction, and no change of the
  error that request() and read() return; update() itself returns nothing.\<close>

theorem error_states_return_to_idle:
  "(dps_state d = DPS310_TEMP_ERROR \<or> dps_state d = DPS310_PRES_ERROR \<longrightarrow>
      DPS310_update fl u d = d\<lparr>dps_state := DPS310_IDLE\<rparr>
      \<and> dps_state (DPS310_update fl u d) = DPS310_IDLE
      \<and> dps_Wire (DPS310_update fl u d) = dps_Wire d
      \<and> dps_error (DPS310_update fl u d) = dps_error d)
   \<and> (ads_state a = ADS1x1x_ERROR \<longrightarrow>
      ADS1x1x_update millis v a = a\<lparr>ads_state := ADS1x1x_IDLE\<rparr>
      \<and> ads_state (ADS1x1x_update millis v a) = ADS1x1x_IDLE
      \<and> ads_Wire (ADS1x1x_update millis v a) = ads_Wire a
      \<and> ads_error (ADS1x1x_update millis v a) = ads_error a)"
  by (auto simp: DPS310_update_def ADS1x1x_update_def DPS310_set_def ADS1x1x_set_def)

theorem error_states_return_to_idle_witness:
  "(let d = DPS310_update exact_float (0, 0, 0)
              ((DPS310_new exact_float \<lparr>answers = [NACK], traffic = []\<rparr>)\<lparr>dps_state := DPS310_TEMP_BUSY\<rparr>);
        d' = DPS310_update exact_float (0, 0, 0)
              ((DPS310_new exact_float \<lparr>answers = [NACK], traffic = []\<rparr>)\<lparr>dps_state := DPS310_PRES_BUSY\<rparr>);
        a = (ADS1x1x_new FAILED_NOT_RESPONDING [] \<lparr>answers = [ACK [], ACK [0x00, 0x00], ACK []], traffic = []\<rparr>)\<lparr>ads_state := ADS1x1x_ERROR\<rparr>
    in dps_state d = DPS310_TEMP_ERROR
       \<and> dps_error d = FAILED_NOT_RESPONDING
       \<and> dps_state (DPS310_update exact_float (0, 0, 0) d) = DPS310_IDLE
       \<and> dps_Wire (DPS310_update exact_float (0, 0, 0) d) = dps_Wire d
       \<and> dps_error (DPS310_update exact_float (0, 0, 0) d) = FAILED_NOT_RESPONDING
       \<and> dps_state d' = DPS310_PRES_ERROR
       \<and> dps_error d' = FAILED_NOT_RESPONDING
       \<and> dps_state (DPS310_update exact_float (0, 0, 0) d') = DPS310_IDLE
       \<and> dps_Wire (DPS310_update exact_float (0, 0, 0) d') = dps_Wire d'
       \<and> dps_error (DPS310_update exact_float (0, 0, 0) d') = FAILED_NOT_RESPONDING
       \<and> ads_state a = ADS1x1x_ERROR
       \<and> ads_state (ADS1x1x_update 9 0 a) = ADS1x1x_IDLE
       \<and> ads_Wire (ADS1x1x_update 9 0 a) = ads_Wire a
       \<and> ads_error (ADS1x1x_update 9 0 a) = FAILED_NOT_RESPONDING)"
  using
    error_states_return_to_idle
      [of "DPS310_update exact_float (0, 0, 0) ((DPS310_new exact_float \<lparr>answers = [NACK], traffic = []\<rparr>)\<lparr>dps_state := DPS310_TEMP_BUSY\<rparr>)"
          exact_float "(0, 0, 0)"
          "(ADS1x1x_new FAILED_NOT_RESPONDING [] \<lparr>answers = [ACK [], ACK [0x00, 0x00], ACK []], traffic = []\<rparr>)\<lparr>ads_state := ADS1x1x_ERROR\<rparr>"
          9 0]
    error_states_return_to_idle
      [of "DPS310_update exact_float (0, 0, 0) ((DPS310_new exact_float \<lparr>answers = [NACK], traffic = []\<rparr>)\<lparr>dps_state := DPS310_PRES_BUSY\<rparr>)"
          exact_float "(0, 0, 0)"
          "(ADS1x1x_new FAILED_NOT_RESPONDING [] \<lparr>answers = [ACK [], ACK [0x00, 0x00], ACK []], traffic = []\<rparr>)\<lparr>ads_state := ADS1x1x_ERROR\<rparr>"
          9 0]
  by (simp add: DPS310_defs ADS1x1x_defs Let_def)

subsection \<open>The ready-bit polls of the pressure sensor\<close>

lemma DPS310_update_TEMP_BUSY:
  assumes "dps_state d = DPS310_TEMP_BUSY"
    and "DPS310_read_reg Register_MEAS_CFG (fst u) d = (r, v, d')"
  shows "dps_state (DPS310_update fl u d) =
           (if hasBitSet8 v MEAS_CFG_TMP_RDY then DPS310_TEMP_COMPLETE
            else if r \<noteq> SUCCESS then DPS310_TEMP_ERROR else DPS310_TEMP_BUSY)"
  using assms DPS310_read_reg_result(2) [OF assms(2)]
  by (simp add: DPS310_update_def DPS310_read_or_set_def DPS310_not_def)

lemma DPS310_update_PRES_BUSY:
  assumes "dps_state d = DPS310_PRES_BUSY"
    and "DPS310_read_reg Register_MEAS_CFG (fst u) d = (r, v, d')"
  shows "dps_state (DPS310_update fl u d) =
           (if hasBitSet8 v MEAS_CFG_PRS_RDY then DPS310_PRES_COMPLETE
            else if r \<noteq> SUCCESS then DPS310_PRES_ERROR else DPS310_PRES_BUSY)"
  using assms DPS310_read_reg_result(2) [OF assms(2)]
  by (simp add: DPS310_update_def DPS310_read_or_set_def DPS310_not_def)

text \<open>C5 (DPS310): update() in TEMP_BUSY (PRES_BUSY) whose read of the status register
  fails is to leave the state TEMP_ERROR (PRES_ERROR). The code sets that state and then
  still tests the ready bit of the local meas_cfg, which the failed read has not written:
  when the read fails while meas_cfg holds 0x20 (the temperature-ready bit), the state
  after the call is TEMP_COMPLETE, not TEMP_ERROR; in PRES_BUSY with 0x10 it is
  PRES_COMPLETE. By the two lemmas above the state is the error state exactly when the
  ready bit of that stale byte is clear.\<close>

theorem DPS310_update_busy_failed_read:
  "(let d = (DPS310_new exact_float \<lparr>answers = [NACK], traffic = []\<rparr>)\<lparr>dps_state := DPS310_TEMP_BUSY\<rparr>
    in fst (DPS310_read_reg Register_MEAS_CFG 0x20 d) = FAILED_NOT_RESPONDING
       \<and> dps_state (DPS310_update exact_float (0x20, 0, 0) d) = DPS310_TEMP_COMPLETE)
   \<and> (let d = (DPS310_new exact_float \<lparr>answers = [NACK], traffic = []\<rparr>)\<lparr>dps_state := DPS310_PRES_BUSY\<rparr>
       in fst (DPS310_read_reg Register_MEAS_CFG 0x10 d) = FAILED_NOT_RESPONDING
          \<and> dps_state (DPS310_update exact_float (0x10, 0, 0) d) = DPS310_PRES_COMPLETE)"
  by (simp add: DPS310_defs Let_def)

subsection \<open>The conversion delay\<close>

lemma getConversionDelay_ceiling:
  "uint (getConversionDelay dr) = \<lceil>1000 / real_of_int (use_DataRate dr)\<rceil>"
  by (cases dr) (simp_all add: getConversionDelay_def)

lemma ADS1x1x_update_BUSY:
  assumes "ads_state a = ADS1x1x_BUSY"
  shows "ADS1x1x_update millis v a =
           (if \<lceil>1000 / real_of_int (use_DataRate (data_rate (ads_settings a)))\<rceil>
                 \<le> uint (millis - ads_latest_request_time a)
            then a\<lparr>ads_state := ADS1x1x_COMPLETE, ads_latest_request_time := 0\<rparr>
            else a)"
  using assms
  by (simp add: ADS1x1x_update_def ADS1x1x_set_def word_le_def
      getConversionDelay_ceiling [symmetric])

text \<open>C4 (ADS1x1x): update() in BUSY moves to COMPLETE exactly when the milliseconds elapsed
  since the request's timestamp (the unsigned 32-bit difference of the clock and the
  timestamp) are at least ceil(1000 / r), r the configured data rate in samples per second,
  and stays BUSY otherwise; it makes no bus transaction and does not depend on the bus or on
  anything read from it. At 128 samples per second the bound is 8 ms.\<close>

theorem ADS1x1x_busy_until_delay:
  assumes "ads_state a = ADS1x1x_BUSY"
  shows
    "(ads_state (ADS1x1x_update millis v a) = ADS1x1x_COMPLETE)
       = (\<lceil>1000 / real_of_int (use_DataRate (data_rate (ads_settings a)))\<rceil>
            \<le> uint (millis - ads_latest_request_time a))
     \<and> (ads_state (ADS1x1x_update millis v a) = ADS1x1x_BUSY)
       = (uint (millis - ads_latest_request_time a)
            < \<lceil>1000 / real_of_int (use_DataRate (data_rate (ads_settings a)))\<rceil>)
     \<and> ads_Wire (ADS1x1x_update millis v a) = ads_Wire a
     \<and> ADS1x1x_update millis v' (a\<lparr>ads_Wire := w\<rparr>) = (ADS1x1x_update millis v a)\<lparr>ads_Wire := w\<rparr>
     \<and> (data_rate (ads_settings a) = DR_0128SPS \<longrightarrow>
          ads_state (ADS1x1x_update millis v a)
          = (if uint (millis - ads_latest_request_time a) < 8 then ADS1x1x_BUSY
             else ADS1x1x_COMPLETE))"
proof -
  have "ads_state (a\<lparr>ads_Wire := w\<rparr>) = ADS1x1x_BUSY"
    using assms by simp
  note upd = ADS1x1x_update_BUSY [OF assms] ADS1x1x_update_BUSY [OF this]
  have "\<lceil>1000 / real_of_int (use_DataRate DR_0128SPS)\<rceil> = 8"
    by simp
  then show ?thesis
    using assms by (auto simp: upd)
qed

theorem ADS1x1x_busy_until_delay_witness:
  "(let w = \<lparr>answers = [ACK [], ACK [0x00, 0x00], ACK []], traffic = []\<rparr>;
        a = (ADS1x1x_new FAILED_UNKNOWN [] w)
              \<lparr>ads_state := ADS1x1x_BUSY, ads_latest_request_time := 100\<rparr>;
        a' = (ADS1x1x_new FAILED_UNKNOWN [] w)
              \<lparr>ads_state := ADS1x1x_BUSY, ads_latest_request_time := 0xFFFFFFFE\<rparr>
    in ads_state a = ADS1x1x_BUSY
       \<and> data_rate (ads_settings a) = DR_0128SPS
       \<and> \<lceil>1000 / real_of_int (use_DataRate (data_rate (ads_settings a)))\<rceil> = 8
       \<and> uint (107 - ads_latest_request_time a) = 7
       \<and> ads_state (ADS1x1x_update 107 0 a) = ADS1x1x_BUSY
       \<and> uint (108 - ads_latest_request_time a) = 8
       \<and> ads_state (ADS1x1x_update 108 0 a) = ADS1x1x_COMPLETE
       \<and> ads_Wire (ADS1x1x_update 108 0 a) = w
       \<and> ads_state a' = ADS1x1x_BUSY
       \<and> uint (5 - ads_latest_request_time a') = 7
       \<and> ads_state (ADS1x1x_update 5 0 a') = ADS1x1x_BUSY
       \<and> uint (6 - ads_latest_request_time a') = 8
       \<and> ads_state (ADS1x1x_update 6 0 a') = ADS1x1x_COMPLETE)"
  using
    ADS1x1x_busy_until_delay [of "(ADS1x1x_new FAILED_UNKNOWN [] \<lparr>answers = [ACK [], ACK [0x00, 0x00], ACK []], traffic = []\<rparr>)
            \<lparr>ads_state := ADS1x1x_BUSY, ads_latest_request_time := 100\<rparr>" 107 0 0 "\<lparr>answers = [ACK [], ACK [0x00, 0x00], ACK []], traffic = []\<rparr>"]
    ADS1x1x_busy_until_delay [of "(ADS1x1x_new FAILED_UNKNOWN [] \<lparr>answers = [ACK [], ACK [0x00, 0x00], ACK []], traffic = []\<rparr>)
            \<lparr>ads_state := ADS1x1x_BUSY, ads_latest_request_time := 100\<rparr>" 108 0 0 "\<lparr>answers = [ACK [], ACK [0x00, 0x00], ACK []], traffic = []\<rparr>"]
    ADS1x1x_busy_until_delay [of "(ADS1x1x_new FAILED_UNKNOWN [] \<lparr>answers = [ACK [], ACK [0x00, 0x00], ACK []], traffic = []\<rparr>)
            \<lparr>ads_state := ADS1x1x_BUSY, ads_latest_request_time := 0xFFFFFFFE\<rparr>" 5 0 0 "\<lparr>answers = [ACK [], ACK [0x00, 0x00], ACK []], traffic = []\<rparr>"]
    ADS1x1x_busy_until_delay [of "(ADS1x1x_new FAILED_UNKNOWN [] \<lparr>answers = [ACK [], ACK [0x00, 0x00], ACK []], traffic = []\<rparr>)
            \<lparr>ads_state := ADS1x1x_BUSY, ads_latest_request_time := 0xFFFFFFFE\<rparr>" 6 0 0 "\<lparr>answers = [ACK [], ACK [0x00, 0x00], ACK []], traffic = []\<rparr>"]
  by (simp add: ADS1x1x_defs Let_def)

subsection \<open>The readout of the converter\<close>

lemma ADS1x1x_update_COMPLETE:
  assumes "ads_state a = ADS1x1x_COMPLETE"
    and rd: "ADS1x1x_read_reg16 Register_CONVERSION_REGISTER v a = (r, x, a')"
  shows "ads_state (ADS1x1x_update millis v a) = ADS1x1x_AVAILABLE"
    and "raw (ads_values (ADS1x1x_update millis v a)) =
           (case ads_device_type a of
              ADS101x \<Rightarrow> ucast (drop_bit 4 (ucast x :: int32_t))
            | ADS111x \<Rightarrow> x)"
  using assms(1) ADS1x1x_read_reg16_result [OF rd]
  by (cases "ads_device_type a"; simp add: ADS1x1x_update_def rd Let_def)+

lemma ADS1x1x_update_not_ERROR:
  assumes "ads_state a \<noteq> ADS1x1x_ERROR"
  shows "ads_state (ADS1x1x_update millis v a) \<noteq> ADS1x1x_ERROR"
proof (cases "ads_state a")
  case ADS1x1x_COMPLETE
  obtain r x a' where "ADS1x1x_read_reg16 Register_CONVERSION_REGISTER v a = (r, x, a')"
    by (cases "ADS1x1x_read_reg16 Register_CONVERSION_REGISTER v a") auto
  from ADS1x1x_update_COMPLETE(1) [OF ADS1x1x_COMPLETE this] show ?thesis by simp
qed (use assms in \<open>simp_all add: ADS1x1x_update_def ADS1x1x_set_def\<close>)

text \<open>C9 (ADS1x1x): update() in COMPLETE always leaves the state AVAILABLE, also when the
  read of the conversion register fails: the ERROR it sets then is overwritten in the same
  call, and the values made available are computed from what the local conv_reg held
  before the failed read. No update() enters ERROR from another state.\<close>

theorem ADS1x1x_complete_becomes_available:
  assumes "ads_state a = ADS1x1x_COMPLETE"
  shows
    "ads_state (ADS1x1x_update millis v a) = ADS1x1x_AVAILABLE
     \<and> ADS1x1x_available (ADS1x1x_update millis v a)
     \<and> (fst (ADS1x1x_read_reg16 Register_CONVERSION_REGISTER v a) \<noteq> SUCCESS \<longrightarrow>
          ads_state (ADS1x1x_update millis v a) = ADS1x1x_AVAILABLE
          \<and> raw (ads_values (ADS1x1x_update millis v a)) =
              (case ads_device_type a of
                 ADS101x \<Rightarrow> ucast (drop_bit 4 (ucast v :: int32_t))
               | ADS111x \<Rightarrow> v))
     \<and> (ads_state b \<noteq> ADS1x1x_ERROR \<longrightarrow> ads_state (ADS1x1x_update millis v b) \<noteq> ADS1x1x_ERROR)"
proof -
  obtain r x a' where rd: "ADS1x1x_read_reg16 Register_CONVERSION_REGISTER v a = (r, x, a')"
    by (cases "ADS1x1x_read_reg16 Register_CONVERSION_REGISTER v a") auto
  from ADS1x1x_read_reg16_result(1) [OF rd] have "r \<noteq> SUCCESS \<Longrightarrow> x = v"
    by auto
  then show ?thesis
    using ADS1x1x_update_COMPLETE [OF assms rd, of millis] ADS1x1x_update_not_ERROR [of b millis v]
    by (auto simp: rd ADS1x1x_available_def ADS1x1x_in_def)
qed

theorem ADS1x1x_complete_becomes_available_witness:
  "(let a = (ADS1x1x_new FAILED_UNKNOWN [] \<lparr>answers = [NACK], traffic = []\<rparr>)\<lparr>ads_state := ADS1x1x_COMPLETE\<rparr>;
        a' = (ADS1x1x_new FAILED_UNKNOWN [] \<lparr>answers = [ACK [], ACK [0x45, 0x60]], traffic = []\<rparr>)\<lparr>ads_state := ADS1x1x_COMPLETE\<rparr>
    in ads_state a = ADS1x1x_COMPLETE
       \<and> fst (ADS1x1x_read_reg16 Register_CONVERSION_REGISTER 0x1230 a) = FAILED_NOT_RESPONDING
       \<and> ads_state (ADS1x1x_update 9 0x1230 a) = ADS1x1x_AVAILABLE
       \<and> ADS1x1x_available (ADS1x1x_update 9 0x1230 a)
       \<and> raw (ads_values (ADS1x1x_update 9 0x1230 a)) = 0x123
       \<and> voltage (ads_values (ADS1x1x_update 9 0x1230 a)) = 291
       \<and> ads_state a' = ADS1x1x_COMPLETE
       \<and> fst (ADS1x1x_read_reg16 Register_CONVERSION_REGISTER 0x1230 a') = SUCCESS
       \<and> ads_state (ADS1x1x_update 9 0x1230 a') = ADS1x1x_AVAILABLE
       \<and> raw (ads_values (ADS1x1x_update 9 0x1230 a')) = 0x456
       \<and> voltage (ads_values (ADS1x1x_update 9 0x1230 a')) = 1110)"
  using
    ADS1x1x_complete_becomes_available [of "(ADS1x1x_new FAILED_UNKNOWN [] \<lparr>answers = [NACK], traffic = []\<rparr>)
            \<lparr>ads_state := ADS1x1x_COMPLETE\<rparr>" 9 "0x1230"
        "(ADS1x1x_new FAILED_UNKNOWN [] \<lparr>answers = [NACK], traffic = []\<rparr>)
            \<lparr>ads_state := ADS1x1x_COMPLETE\<rparr>"]
    ADS1x1x_complete_becomes_available [of "(ADS1x1x_new FAILED_UNKNOWN [] \<lparr>answers = [ACK [], ACK [0x45, 0x60]], traffic = []\<rparr>)
            \<lparr>ads_state := ADS1x1x_COMPLETE\<rparr>" 9 "0x1230"
        "(ADS1x1x_new FAILED_UNKNOWN [] \<lparr>answers = [ACK [], ACK [0x45, 0x60]], traffic = []\<rparr>)
            \<lparr>ads_state := ADS1x1x_COMPLETE\<rparr>"]
  by (simp add: ADS1x1x_defs Let_def)

text \<open>
  A whole conversion of the 12-bit converter at 128 samples per second on a bus that
  answers every transaction: request() at 100 ms, update() at 107 ms and at 108 ms,
  update() again and read(); the conversion register holds 0x4560.
\<close>

lemma ADS1x1x_cycle_on_scripted_bus:
  "(let w = \<lparr>answers = [ACK [], ACK [0x05, 0x83], ACK [], ACK [], ACK [0x45, 0x60]],
             traffic = []\<rparr>;
        a0 = (ADS1x1x_new FAILED_UNKNOWN [] w)\<lparr>ads_state := ADS1x1x_IDLE\<rparr>;
        a1 = snd (ADS1x1x_request 100 AIN0_GND a0);
        a2 = ADS1x1x_update 107 0 a1;
        a3 = ADS1x1x_update 108 0 a2;
        a4 = ADS1x1x_update 109 0 a3
    in fst (ADS1x1x_request 100 AIN0_GND a0) = SUCCESS
       \<and> ads_state a1 = ADS1x1x_BUSY
       \<and> ads_latest_request_time a1 = 100
       \<and> traffic (ads_Wire a1) =
           [Sent 0x48 [0x01], Received 0x48 [0x05, 0x83], Sent 0x48 [0x01, 0xC5, 0x83]]
       \<and> ads_state a2 = ADS1x1x_BUSY
       \<and> ads_state a3 = ADS1x1x_COMPLETE
       \<and> ads_Wire a3 = ads_Wire a1
       \<and> ads_state a4 = ADS1x1x_AVAILABLE
       \<and> raw (ads_values a4) = 0x456
       \<and> fst (ADS1x1x_read 0 a4) = SUCCESS
       \<and> fst (snd (ADS1x1x_read 0 a4)) = 1110
       \<and> ads_state (snd (snd (ADS1x1x_read 0 a4))) = ADS1x1x_IDLE)"
  by code_simp

subsection \<open>Requests that meet a bus failure\<close>

lemma DPS310_request_idle:
  assumes idle: "dps_state d = DPS310_IDLE"
    and rd: "DPS310_read_reg Register_MEAS_CFG 0 d = (r1, v1, d1)"
    and wr: "DPS310_write_reg Register_MEAS_CFG
               (ucast (setPattern8 v1 MEAS_CFG_MEAS_CTRL0
                         (use_OperationMode ONE_SHOT_TEMPERATURE) 3)) d1 = (r2, d2)"
  shows "r1 \<noteq> SUCCESS \<Longrightarrow> DPS310_request d = (FAILED_NOT_RESPONDING, d1)"
    and "r1 = SUCCESS \<Longrightarrow> r2 \<noteq> SUCCESS \<Longrightarrow> DPS310_request d = (FAILED_NOT_RESPONDING, d2)"
    and "r1 = SUCCESS \<Longrightarrow> r2 = SUCCESS \<Longrightarrow>
           DPS310_request d = (SUCCESS, d2\<lparr>dps_state := DPS310_TEMP_BUSY\<rparr>)"
    and "dps_state d1 = DPS310_IDLE" and "dps_state d2 = DPS310_IDLE"
proof -
  have wr': "DPS310_write_reg Register_MEAS_CFG
               (ucast (setPattern8 v1 MEAS_CFG_MEAS_CTRL0 2 3)) d1 = (r2, d2)"
    using wr by simp
  from idle DPS310_read_reg_result [OF rd] DPS310_write_reg_result [OF wr]
  show "r1 \<noteq> SUCCESS \<Longrightarrow> DPS310_request d = (FAILED_NOT_RESPONDING, d1)"
    and "r1 = SUCCESS \<Longrightarrow> r2 \<noteq> SUCCESS \<Longrightarrow> DPS310_request d = (FAILED_NOT_RESPONDING, d2)"
    and "r1 = SUCCESS \<Longrightarrow> r2 = SUCCESS \<Longrightarrow>
           DPS310_request d = (SUCCESS, d2\<lparr>dps_state := DPS310_TEMP_BUSY\<rparr>)"
    and "dps_state d1 = DPS310_IDLE" and "dps_state d2 = DPS310_IDLE"
    by (auto simp: DPS310_request_def DPS310_applyOperationMode_def DPS310_in_def
        DPS310_not_def DPS310_set_def rd wr')
qed

lemma DPS310_request_outcome:
  assumes idle: "dps_state d = DPS310_IDLE"
    and rd: "DPS310_read_reg Register_MEAS_CFG 0 d = (r1, v1, d1)"
    and wr: "DPS310_write_reg Register_MEAS_CFG
               (ucast (setPattern8 v1 MEAS_CFG_MEAS_CTRL0
                         (use_OperationMode ONE_SHOT_TEMPERATURE) 3)) d1 = (r2, d2)"
  shows "fst (DPS310_request d)
           = (if r1 = SUCCESS \<and> r2 = SUCCESS then SUCCESS else FAILED_NOT_RESPONDING)
         \<and> dps_state (snd (DPS310_request d))
           = (if r1 = SUCCESS \<and> r2 = SUCCESS then DPS310_TEMP_BUSY else DPS310_IDLE)"
proof -
  note req = DPS310_request_idle [OF assms]
  show ?thesis
  proof (cases "r1 = SUCCESS")
    case False
    with req(1) [OF False] req(4) show ?thesis by simp
  next
    case r1: True
    show ?thesis
    proof (cases "r2 = SUCCESS")
      case False
      with req(2) [OF r1 False] req(5) r1 show ?thesis by simp
    next
      case True
      with req(3) [OF r1 True] r1 show ?thesis by simp
    qed
  qed
qed

lemma ADS1x1x_request_outcome:
  assumes idle: "ads_state a = ADS1x1x_IDLE"
    and rd: "ADS1x1x_read_reg16 Register_CONFIG_REGISTER 0 a = (r1, v1, a1)"
    and wr: "ADS1x1x_write_reg Register_CONFIG_REGISTER
               (ucast (ADS1x1x_request_config cc v1)) a1 = (r2, a2)"
  shows "fst (ADS1x1x_request millis cc a)
           = (if r1 = SUCCESS \<and> r2 = SUCCESS then SUCCESS else FAILED_NOT_RESPONDING)
         \<and> ads_state (snd (ADS1x1x_request millis cc a))
           = (if r1 = SUCCESS \<and> r2 = SUCCESS then ADS1x1x_BUSY else ADS1x1x_IDLE)
         \<and> ads_latest_request_time (snd (ADS1x1x_request millis cc a))
           = (if r1 = SUCCESS \<and> r2 = SUCCESS then millis else ads_latest_request_time a)"
proof -
  note req = ADS1x1x_request_idle(1-3) [OF assms, of millis]
    ADS1x1x_request_idle(4-7) [OF assms]
  show ?thesis
  proof (cases "r1 = SUCCESS")
    case False
    with req(1) [OF False] req(4,6) show ?thesis by simp
  next
    case r1: True
    show ?thesis
    proof (cases "r2 = SUCCESS")
      case False
      with req(2) [OF r1 False] req(5,7) r1 show ?thesis by simp
    next
      case True
      with req(3) [OF r1 True] r1 show ?thesis by simp
    qed
  qed
qed

text \<open>C10 (both devices): request() in IDLE runs one register read and then one register
  write. If the read or the write fails, request() returns FAILED_NOT_RESPONDING and the
  state is still IDLE (for the converter, the request timestamp is unchanged too); the
  state becomes TEMP_BUSY (BUSY, with the timestamp set to the clock) only when both have
  succeeded, and then request() returns SUCCESS.\<close>

theorem request_bus_failure_keeps_idle:
  assumes "dps_state d = DPS310_IDLE" and "ads_state a = ADS1x1x_IDLE"
  shows
    "(fst (DPS310_read_reg Register_MEAS_CFG 0 d) \<noteq> SUCCESS
      \<or> fst (DPS310_write_reg Register_MEAS_CFG
                (ucast (setPattern8 (fst (snd (DPS310_read_reg Register_MEAS_CFG 0 d)))
                          MEAS_CFG_MEAS_CTRL0 (use_OperationMode ONE_SHOT_TEMPERATURE) 3))
                (snd (snd (DPS310_read_reg Register_MEAS_CFG 0 d)))) \<noteq> SUCCESS
      \<longrightarrow> fst (DPS310_request d) = FAILED_NOT_RESPONDING
          \<and> dps_state (snd (DPS310_request d)) = DPS310_IDLE)
     \<and> (fst (DPS310_read_reg Register_MEAS_CFG 0 d) = SUCCESS
        \<and> fst (DPS310_write_reg Register_MEAS_CFG
                  (ucast (setPattern8 (fst (snd (DPS310_read_reg Register_MEAS_CFG 0 d)))
                            MEAS_CFG_MEAS_CTRL0 (use_OperationMode ONE_SHOT_TEMPERATURE) 3))
                  (snd (snd (DPS310_read_reg Register_MEAS_CFG 0 d)))) = SUCCESS
        \<longrightarrow> fst (DPS310_request d) = SUCCESS
            \<and> dps_state (snd (DPS310_request d)) = DPS310_TEMP_BUSY)
     \<and> (fst (ADS1x1x_read_reg16 Register_CONFIG_REGISTER 0 a) \<noteq> SUCCESS
        \<or> fst (ADS1x1x_write_reg Register_CONFIG_REGISTER
                  (ucast (ADS1x1x_request_config cc
                            (fst (snd (ADS1x1x_read_reg16 Register_CONFIG_REGISTER 0 a)))))
                  (snd (snd (ADS1x1x_read_reg16 Register_CONFIG_REGISTER 0 a)))) \<noteq> SUCCESS
        \<longrightarrow> fst (ADS1x1x_request millis cc a) = FAILED_NOT_RESPONDING
            \<and> ads_state (snd (ADS1x1x_request millis cc a)) = ADS1x1x_IDLE
            \<and> ads_latest_request_time (snd (ADS1x1x_request millis cc a))
                = ads_latest_request_time a)
     \<and> (fst (ADS1x1x_read_reg16 Register_CONFIG_REGISTER 0 a) = SUCCESS
        \<and> fst (ADS1x1x_write_reg Register_CONFIG_REGISTER
                  (ucast (ADS1x1x_request_config cc
                            (fst (snd (ADS1x1x_read_reg16 Register_CONFIG_REGISTER 0 a)))))
                  (snd (snd (ADS1x1x_read_reg16 Register_CONFIG_REGISTER 0 a)))) = SUCCESS
        \<longrightarrow> fst (ADS1x1x_request millis cc a) = SUCCESS
            \<and> ads_state (snd (ADS1x1x_request millis cc a)) = ADS1x1x_BUSY
            \<and> ads_latest_request_time (snd (ADS1x1x_request millis cc a)) = millis)"
proof -
  obtain r1 v1 d1 where rd: "DPS310_read_reg Register_MEAS_CFG 0 d = (r1, v1, d1)"
    by (cases "DPS310_read_reg Register_MEAS_CFG 0 d") auto
  obtain r2 d2 where wr:
    "DPS310_write_reg Register_MEAS_CFG
       (ucast (setPattern8 v1 MEAS_CFG_MEAS_CTRL0 (use_OperationMode ONE_SHOT_TEMPERATURE) 3))
       d1 = (r2, d2)"
    by (cases "DPS310_write_reg Register_MEAS_CFG
       (ucast (setPattern8 v1 MEAS_CFG_MEAS_CTRL0 (use_OperationMode ONE_SHOT_TEMPERATURE) 3))
       d1") auto
  obtain q1 w1 a1 where ard: "ADS1x1x_read_reg16 Register_CONFIG_REGISTER 0 a = (q1, w1, a1)"
    by (cases "ADS1x1x_read_reg16 Register_CONFIG_REGISTER 0 a") auto
  obtain q2 a2 where awr:
    "ADS1x1x_write_reg Register_CONFIG_REGISTER (ucast (ADS1x1x_request_config cc w1)) a1
       = (q2, a2)"
    by (cases "ADS1x1x_write_reg Register_CONFIG_REGISTER
                 (ucast (ADS1x1x_request_config cc w1)) a1") auto
  note dps = DPS310_request_outcome [OF assms(1) rd wr]
  note ads = ADS1x1x_request_outcome [OF assms(2) ard awr, of millis]
  show ?thesis
    unfolding rd ard fst_conv snd_conv wr awr
    using dps ads by simp
qed

theorem request_bus_failure_keeps_idle_witness:
  "(let d = (DPS310_new exact_float \<lparr>answers = [NACK], traffic = []\<rparr>)\<lparr>dps_state := DPS310_IDLE\<rparr>;
        a = (ADS1x1x_new FAILED_UNKNOWN [] \<lparr>answers = [NACK], traffic = []\<rparr>)
              \<lparr>ads_state := ADS1x1x_IDLE, ads_latest_request_time := 3\<rparr>;
        d' = (DPS310_new exact_float \<lparr>answers = [ACK [], ACK [0x00], NACK], traffic = []\<rparr>)\<lparr>dps_state := DPS310_IDLE\<rparr>;
        a' = (ADS1x1x_new FAILED_UNKNOWN [] \<lparr>answers = [ACK [], ACK [0x00, 0x00], NACK], traffic = []\<rparr>)
              \<lparr>ads_state := ADS1x1x_IDLE, ads_latest_request_time := 3\<rparr>;
        d'' = (DPS310_new exact_float \<lparr>answers = [ACK [], ACK [0x00, 0x00], ACK []], traffic = []\<rparr>)\<lparr>dps_state := DPS310_IDLE\<rparr>;
        a'' = (ADS1x1x_new FAILED_UNKNOWN [] \<lparr>answers = [ACK [], ACK [0x00, 0x00], ACK []], traffic = []\<rparr>)
              \<lparr>ads_state := ADS1x1x_IDLE, ads_latest_request_time := 3\<rparr>
    in dps_state d = DPS310_IDLE \<and> ads_state a = ADS1x1x_IDLE
       \<and> fst (DPS310_read_reg Register_MEAS_CFG 0 d) \<noteq> SUCCESS
       \<and> fst (DPS310_request d) = FAILED_NOT_RESPONDING
       \<and> dps_state (snd (DPS310_request d)) = DPS310_IDLE
       \<and> fst (ADS1x1x_read_reg16 Register_CONFIG_REGISTER 0 a) \<noteq> SUCCESS
       \<and> fst (ADS1x1x_request 7 AIN0_GND a) = FAILED_NOT_RESPONDING
       \<and> ads_state (snd (ADS1x1x_request 7 AIN0_GND a)) = ADS1x1x_IDLE
       \<and> ads_latest_request_time (snd (ADS1x1x_request 7 AIN0_GND a)) = 3
       \<and> dps_state d' = DPS310_IDLE \<and> ads_state a' = ADS1x1x_IDLE
       \<and> fst (DPS310_read_reg Register_MEAS_CFG 0 d') = SUCCESS
       \<and> fst (DPS310_request d') = FAILED_NOT_RESPONDING
       \<and> dps_state (snd (DPS310_request d')) = DPS310_IDLE
       \<and> fst (ADS1x1x_read_reg16 Register_CONFIG_REGISTER 0 a') = SUCCESS
       \<and> fst (ADS1x1x_request 7 AIN0_GND a') = FAILED_NOT_RESPONDING
       \<and> ads_state (snd (ADS1x1x_request 7 AIN0_GND a')) = ADS1x1x_IDLE
       \<and> ads_latest_request_time (snd (ADS1x1x_request 7 AIN0_GND a')) = 3
       \<and> dps_state d'' = DPS310_IDLE \<and> ads_state a'' = ADS1x1x_IDLE
       \<and> fst (DPS310_request d'') = SUCCESS
       \<and> dps_state (snd (DPS310_request d'')) = DPS310_TEMP_BUSY
       \<and> fst (ADS1x1x_request 7 AIN0_GND a'') = SUCCESS
       \<and> ads_state (snd (ADS1x1x_request 7 AIN0_GND a'')) = ADS1x1x_BUSY
       \<and> ads_latest_request_time (snd (ADS1x1x_request 7 AIN0_GND a'')) = 7)"
  using
    request_bus_failure_keeps_idle
      [of "(DPS310_new exact_float \<lparr>answers = [NACK], traffic = []\<rparr>)\<lparr>dps_state := DPS310_IDLE\<rparr>"
          "(ADS1x1x_new FAILED_UNKNOWN [] \<lparr>answers = [NACK], traffic = []\<rparr>)
                  \<lparr>ads_state := ADS1x1x_IDLE, ads_latest_request_time := 3\<rparr>" AIN0_GND 7]
    request_bus_failure_keeps_idle
      [of "(DPS310_new exact_float \<lparr>answers = [ACK [], ACK [0x00], NACK], traffic = []\<rparr>)\<lparr>dps_state := DPS310_IDLE\<rparr>"
          "(ADS1x1x_new FAILED_UNKNOWN [] \<lparr>answers = [ACK [], ACK [0x00, 0x00], NACK], traffic = []\<rparr>)
                  \<lparr>ads_state := ADS1x1x_IDLE, ads_latest_request_time := 3\<rparr>" AIN0_GND 7]
    request_bus_failure_keeps_idle
      [of "(DPS310_new exact_float \<lparr>answers = [ACK [], ACK [0x00, 0x00], ACK []], traffic = []\<rparr>)\<lparr>dps_state := DPS310_IDLE\<rparr>"
          "(ADS1x1x_new FAILED_UNKNOWN [] \<lparr>answers = [ACK [], ACK [0x00, 0x00], ACK []], traffic = []\<rparr>)
                  \<lparr>ads_state := ADS1x1x_IDLE, ads_latest_request_time := 3\<rparr>" AIN0_GND 7]
  by (simp add: DPS310_defs ADS1x1x_defs Let_def)

end
